theory Spec2Isabelle
  imports Complex_Main "HOL-Library.Word"
begin

section \<open>Raster images as the imaging library holds them\<close>

text \<open>
  \<^verbatim>\<open>src/lib/imageEdit.py\<close> is written against Pillow (\<^verbatim>\<open>PIL.Image\<close>,
  \<^verbatim>\<open>ImageDraw\<close>, \<^verbatim>\<open>ImageFilter\<close>). A Pillow image is a mutable object: it has a mode,
  a size and a pixel buffer, and the program holds references to such objects. The
  model therefore has three layers:
  \<^item> image values (\<open>image\<close>): mode, width, height and the pixel at each coordinate;
  \<^item> a store of image objects addressed by references, with the Python exceptions as
    error values (\<open>'a pil\<close>);
  \<^item> the functions of \<^verbatim>\<open>imageEdit.py\<close>, statement by statement, over that store.

  Channels are bytes. A pixel is kept as four bytes whatever the mode; a single-band
  mode (\<^verbatim>\<open>L\<close>, \<^verbatim>\<open>1\<close>) uses the first byte only. Pixels outside \<open>width \<times> height\<close> carry
  no meaning and are never read by the operations below.
\<close>

type_synonym u8 = "8 word"
type_synonym rgba = "u8 \<times> u8 \<times> u8 \<times> u8"

datatype mode = Mode_1 | Mode_L | Mode_RGB | Mode_RGBA

record image =
  mode :: mode
  width :: nat
  height :: nat
  px :: "int \<Rightarrow> int \<Rightarrow> rgba"

definition size_of :: "image \<Rightarrow> int \<times> int" where
  "size_of i = (int (width i), int (height i))"

definition inside :: "image \<Rightarrow> int \<Rightarrow> int \<Rightarrow> bool" where
  "inside i x y = (0 \<le> x \<and> x < int (width i) \<and> 0 \<le> y \<and> y < int (height i))"

text \<open>Reading a coordinate that may lie outside the image: Pillow's \<^verbatim>\<open>crop\<close> fills the
  part of the box that is outside the source with zero bytes.\<close>

definition getpx :: "image \<Rightarrow> int \<Rightarrow> int \<Rightarrow> rgba" where
  "getpx i x y = (if inside i x y then px i x y else (0, 0, 0, 0))"

subsection \<open>Mode conversion\<close>

text \<open>Pillow's \<^verbatim>\<open>L24\<close> luma (ITU-R 601-2, 16-bit fixed point) and the per-pixel
  converters \<^verbatim>\<open>rgb2l\<close>, \<^verbatim>\<open>bit2l\<close>, \<^verbatim>\<open>l2rgb\<close>, \<^verbatim>\<open>bit2rgb\<close>, \<^verbatim>\<open>rgb2rgba\<close>.\<close>

definition L24 :: "rgba \<Rightarrow> nat" where
  "L24 p = (case p of (r, g, b, a) \<Rightarrow>
     unat r * 19595 + unat g * 38470 + unat b * 7471 + 32768)"

fun to_L_px :: "mode \<Rightarrow> rgba \<Rightarrow> rgba" where
  "to_L_px Mode_L p = p"
| "to_L_px Mode_1 (v, g, b, a) = (if v \<noteq> 0 then 255 else 0, g, b, a)"
| "to_L_px Mode_RGB p = (of_nat (L24 p div 65536), 0, 0, 0)"
| "to_L_px Mode_RGBA p = (of_nat (L24 p div 65536), 0, 0, 0)"

fun to_RGBA_px :: "mode \<Rightarrow> rgba \<Rightarrow> rgba" where
  "to_RGBA_px Mode_RGBA p = p"
| "to_RGBA_px Mode_RGB (r, g, b, a) = (r, g, b, 255)"
| "to_RGBA_px Mode_L (v, g, b, a) = (v, v, v, 255)"
| "to_RGBA_px Mode_1 (v, g, b, a) =
     (if v \<noteq> 0 then (255, 255, 255, 255) else (0, 0, 0, 255))"

definition convert_L_img :: "image \<Rightarrow> image" where
  "convert_L_img i =
     \<lparr>mode = Mode_L, width = width i, height = height i,
      px = (\<lambda>x y. to_L_px (mode i) (px i x y))\<rparr>"

definition convert_RGBA_img :: "image \<Rightarrow> image" where
  "convert_RGBA_img i =
     \<lparr>mode = Mode_RGBA, width = width i, height = height i,
      px = (\<lambda>x y. to_RGBA_px (mode i) (px i x y))\<rparr>"

subsection \<open>Pasting\<close>

text \<open>Pillow's \<^verbatim>\<open>DIV255\<close> and \<^verbatim>\<open>BLEND\<close> macros, used by \<^verbatim>\<open>paste\<close> with a mask:
  \<^verbatim>\<open>BLEND(mask, in1, in2) = DIV255(in1 * (255 - mask) + in2 * mask)\<close>.\<close>

definition DIV255 :: "nat \<Rightarrow> nat" where
  "DIV255 a = (let tmp = a + 128 in (tmp div 256 + tmp) div 256)"

definition BLEND :: "u8 \<Rightarrow> u8 \<Rightarrow> u8 \<Rightarrow> u8" where
  "BLEND m in1 in2 = of_nat (DIV255 (unat in1 * (255 - unat m) + unat in2 * unat m))"

definition blend_px :: "u8 \<Rightarrow> rgba \<Rightarrow> rgba \<Rightarrow> rgba" where
  "blend_px m out inp =
     (case out of (r1, g1, b1, a1) \<Rightarrow> case inp of (r2, g2, b2, a2) \<Rightarrow>
        (BLEND m r1 r2, BLEND m g1 g2, BLEND m b1 b2, BLEND m a1 a2))"

definition alpha_of :: "rgba \<Rightarrow> u8" where
  "alpha_of p = (case p of (r, g, b, a) \<Rightarrow> a)"

text \<open>The box a source image covers when it is pasted with its upper left corner at
  \<open>(dx, dy)\<close>. Pillow clips the box to the destination; here the pixels of the
  destination outside its own bounds are never read, so no clipping is written.\<close>

definition covers :: "image \<Rightarrow> int \<times> int \<Rightarrow> int \<Rightarrow> int \<Rightarrow> bool" where
  "covers src pos x y =
     (fst pos \<le> x \<and> x < fst pos + int (width src) \<and>
      snd pos \<le> y \<and> y < snd pos + int (height src))"

text \<open>\<^verbatim>\<open>dst.paste(src, pos)\<close> on an RGBA destination (every destination of this
  library is an RGBA canvas): the source is converted to the destination's mode and
  copied over the box.\<close>

definition paste_img :: "image \<Rightarrow> image \<Rightarrow> int \<times> int \<Rightarrow> image" where
  "paste_img dst src pos =
     dst\<lparr>px := (\<lambda>x y. if covers src pos x y
                      then to_RGBA_px (mode src) (px src (x - fst pos) (y - snd pos))
                      else px dst x y)\<rparr>"

text \<open>\<^verbatim>\<open>dst.paste(src, pos, mask)\<close> with an RGBA mask (every mask of this library is
  the result of \<^verbatim>\<open>convert("RGBA")\<close>): each band of the destination is blended with the
  source by the mask's alpha band.\<close>

definition paste_mask_img :: "image \<Rightarrow> image \<Rightarrow> int \<times> int \<Rightarrow> image \<Rightarrow> image" where
  "paste_mask_img dst src pos msk =
     dst\<lparr>px := (\<lambda>x y. if covers src pos x y
                      then blend_px (alpha_of (px msk (x - fst pos) (y - snd pos)))
                             (px dst x y)
                             (to_RGBA_px (mode src) (px src (x - fst pos) (y - snd pos)))
                      else px dst x y)\<rparr>"

subsection \<open>The parts of Pillow that are left open\<close>

text \<open>
  What Pillow computes in floating point or by its own rasteriser is a parameter of the
  model: which pixels a filled ellipse covers, the pixels of a blurred image, the pixels
  of a resampled image, and the single pixel a thumbnail of size 1 by 1 holds. Sizes,
  modes, positions and exceptions are modelled; these pixel values are not.
  \<open>thumbnail_empty\<close> is the outcome of \<^verbatim>\<open>thumbnail((1, 1))\<close> on an image of width 0
  and height above 1, where Pillow resamples an empty box. \<open>out_of_memory\<close> tells for
  which sizes \<^verbatim>\<open>Image.new\<close> cannot get the memory of the image from the machine it runs
  on, and raises \<^verbatim>\<open>MemoryError\<close>.
\<close>

datatype error =
  ValueError | IndexError | TypeError | UnboundLocalError | ZeroDivisionError
  | OverflowError | MemoryError

record pillow =
  ellipse_covers :: "int \<times> int \<times> int \<times> int \<Rightarrow> int \<Rightarrow> int \<Rightarrow> bool"
  BLUR :: "image \<Rightarrow> int \<Rightarrow> int \<Rightarrow> rgba"
  ANTIALIAS :: "image \<Rightarrow> int \<times> int \<Rightarrow> int \<Rightarrow> int \<Rightarrow> rgba"
  thumbnail_1x1 :: "image \<Rightarrow> rgba"
  thumbnail_empty :: "image \<Rightarrow> error + rgba"
  out_of_memory :: "int \<times> int \<Rightarrow> bool"

subsection \<open>The images Pillow's operations produce\<close>

definition new_img :: "int \<times> int \<Rightarrow> rgba \<Rightarrow> image" where
  "new_img sz colour =
     \<lparr>mode = Mode_RGBA, width = nat (fst sz), height = nat (snd sz), px = (\<lambda>x y. colour)\<rparr>"

definition ellipse_img :: "pillow \<Rightarrow> int \<times> int \<times> int \<times> int \<Rightarrow> rgba \<Rightarrow> image \<Rightarrow> image" where
  "ellipse_img P box fill i =
     i\<lparr>px := (\<lambda>x y. if ellipse_covers P box x y then fill else px i x y)\<rparr>"

definition crop_img :: "image \<Rightarrow> int \<times> int \<times> int \<times> int \<Rightarrow> image" where
  "crop_img i box =
     (case box of (left, upper, right, lower) \<Rightarrow>
        \<lparr>mode = mode i, width = nat (right - left), height = nat (lower - upper),
         px = (\<lambda>x y. getpx i (x + left) (y + upper))\<rparr>)"

definition blur_img :: "pillow \<Rightarrow> image \<Rightarrow> image" where
  "blur_img P i = i\<lparr>px := BLUR P i\<rparr>"

definition resize_img :: "pillow \<Rightarrow> image \<Rightarrow> int \<times> int \<Rightarrow> image" where
  "resize_img P i sz =
     \<lparr>mode = mode i, width = nat (fst sz), height = nat (snd sz), px = ANTIALIAS P i sz\<rparr>"

definition one_pixel_img :: "mode \<Rightarrow> rgba \<Rightarrow> image" where
  "one_pixel_img m v = \<lparr>mode = m, width = 1, height = 1, px = (\<lambda>x y. v)\<rparr>"

definition putpixel_img :: "image \<Rightarrow> int \<times> int \<Rightarrow> rgba \<Rightarrow> image" where
  "putpixel_img i xy v =
     i\<lparr>px := (\<lambda>x y. if x = fst xy \<and> y = snd xy then v else px i x y)\<rparr>"

definition CLIP8 :: "int \<Rightarrow> u8" where
  "CLIP8 v = (if v \<le> 0 then 0 else if 255 \<le> v then 255 else of_int v)"

definition point_1_img :: "(int \<Rightarrow> int) \<Rightarrow> image \<Rightarrow> image" where
  "point_1_img f i =
     \<lparr>mode = Mode_1, width = width i, height = height i,
      px = (\<lambda>x y. (CLIP8 (f (uint (fst (px i x y)))), 0, 0, 0))\<rparr>"

definition raster :: "image \<Rightarrow> rgba list" where
  "raster i = concat (map (\<lambda>y. map (\<lambda>x. px i (int x) (int y)) [0..<width i]) [0..<height i])"

definition getcolors_img :: "image \<Rightarrow> (nat \<times> rgba) list option" where
  "getcolors_img i =
     (let ps = raster i; cs = remdups ps
      in if 256 < length cs then None else Some (map (\<lambda>c. (count_list ps c, c)) cs))"

section \<open>The store of image objects\<close>

text \<open>References are addresses; \<open>lim\<close> is the next free address. A computation takes
  the store and either raises or returns a value and the store it leaves.\<close>

type_synonym ref = nat

record store =
  cells :: "ref \<Rightarrow> image"
  lim :: ref

type_synonym 'a pil = "store \<Rightarrow> error + 'a \<times> store"

definition ret :: "'a \<Rightarrow> 'a pil" where
  "ret x = (\<lambda>s. Inr (x, s))"

definition raise :: "error \<Rightarrow> 'a pil" where
  "raise e = (\<lambda>s. Inl e)"

definition bnd :: "'a pil \<Rightarrow> ('a \<Rightarrow> 'b pil) \<Rightarrow> 'b pil" where
  "bnd m f = (\<lambda>s. case m s of Inl e \<Rightarrow> Inl e | Inr (x, s') \<Rightarrow> f x s')"

definition alloc :: "image \<Rightarrow> ref pil" where
  "alloc i = (\<lambda>s. Inr (lim s, s\<lparr>cells := (cells s)(lim s := i), lim := Suc (lim s)\<rparr>))"

definition deref :: "ref \<Rightarrow> image pil" where
  "deref r = (\<lambda>s. Inr (cells s r, s))"

definition assign :: "ref \<Rightarrow> image \<Rightarrow> unit pil" where
  "assign r i = (\<lambda>s. Inr ((), s\<lparr>cells := (cells s)(r := i)\<rparr>))"

subsection \<open>Pillow's operations on image objects\<close>

text \<open>\<^verbatim>\<open>image.size\<close>\<close>

definition Image_size :: "ref \<Rightarrow> (int \<times> int) pil" where
  "Image_size im = bnd (deref im) (\<lambda>i. ret (size_of i))"

text \<open>\<^verbatim>\<open>Image.new('RGBA', size, colour)\<close>: a negative size raises \<^verbatim>\<open>ValueError\<close> in
  Pillow's own check of the size; the size is then handed to the C core as two C ints,
  and a dimension above \<^verbatim>\<open>INT_MAX\<close>, which is \<open>2\<^sup>3\<^sup>1 - 1\<close>, raises \<^verbatim>\<open>OverflowError\<close>;
  the core then allocates the image, and raises \<^verbatim>\<open>MemoryError\<close> when it cannot.\<close>

definition INT_MAX :: int where
  "INT_MAX = 2147483647"

definition Image_new_RGBA :: "pillow \<Rightarrow> int \<times> int \<Rightarrow> rgba \<Rightarrow> ref pil" where
  "Image_new_RGBA P sz colour =
     (if fst sz < 0 \<or> snd sz < 0 then raise ValueError
      else if INT_MAX < fst sz \<or> INT_MAX < snd sz then raise OverflowError
      else if out_of_memory P sz then raise MemoryError
      else alloc (new_img sz colour))"

text \<open>\<^verbatim>\<open>ImageDraw.Draw(im).ellipse(box, fill)\<close> writes the fill colour into the pixels
  of \<open>im\<close> that the ellipse covers.\<close>

definition ImageDraw_ellipse :: "pillow \<Rightarrow> ref \<Rightarrow> int \<times> int \<times> int \<times> int \<Rightarrow> rgba \<Rightarrow> unit pil" where
  "ImageDraw_ellipse P im box fill =
     bnd (deref im) (\<lambda>i. assign im (ellipse_img P box fill i))"

text \<open>\<^verbatim>\<open>im.crop((left, upper, right, lower))\<close> returns a new image; a box whose right
  is left of its left, or whose lower is above its upper, raises \<^verbatim>\<open>ValueError\<close>.\<close>

definition Image_crop :: "ref \<Rightarrow> int \<times> int \<times> int \<times> int \<Rightarrow> ref pil" where
  "Image_crop im box =
     (case box of (left, upper, right, lower) \<Rightarrow>
        if right < left \<or> lower < upper then raise ValueError
        else bnd (deref im) (\<lambda>i. alloc (crop_img i box)))"

text \<open>\<^verbatim>\<open>dst.paste(src, pos)\<close> and \<^verbatim>\<open>dst.paste(src, pos, mask)\<close> change \<open>dst\<close> in
  place; a mask whose size differs from the source's raises \<^verbatim>\<open>ValueError\<close>.\<close>

definition Image_paste :: "ref \<Rightarrow> ref \<Rightarrow> int \<times> int \<Rightarrow> ref option \<Rightarrow> unit pil" where
  "Image_paste dst src pos msk =
     bnd (deref dst) (\<lambda>d.
     bnd (deref src) (\<lambda>s.
     case msk of
       None \<Rightarrow> assign dst (paste_img d s pos)
     | Some m \<Rightarrow>
         bnd (deref m) (\<lambda>k.
         if size_of k \<noteq> size_of s then raise ValueError
         else assign dst (paste_mask_img d s pos k))))"

text \<open>\<^verbatim>\<open>im.convert('RGBA')\<close> and \<^verbatim>\<open>im.convert('L')\<close> return a new image.\<close>

definition Image_convert_RGBA :: "ref \<Rightarrow> ref pil" where
  "Image_convert_RGBA im = bnd (deref im) (\<lambda>i. alloc (convert_RGBA_img i))"

definition Image_convert_L :: "ref \<Rightarrow> ref pil" where
  "Image_convert_L im = bnd (deref im) (\<lambda>i. alloc (convert_L_img i))"

text \<open>\<^verbatim>\<open>im.filter(ImageFilter.BLUR)\<close> returns a new image of the same mode and size.\<close>

definition Image_filter_BLUR :: "pillow \<Rightarrow> ref \<Rightarrow> ref pil" where
  "Image_filter_BLUR P im = bnd (deref im) (\<lambda>i. alloc (blur_img P i))"

text \<open>\<^verbatim>\<open>im.resize((w, h), Image.ANTIALIAS)\<close> returns a new image: a copy when the size
  is the image's own, \<^verbatim>\<open>ValueError\<close> ("height and width must be > 0") when a requested
  dimension is below 1, and the resampled image otherwise.\<close>

definition Image_resize :: "pillow \<Rightarrow> ref \<Rightarrow> int \<times> int \<Rightarrow> ref pil" where
  "Image_resize P im sz =
     bnd (deref im) (\<lambda>i.
     if size_of i = sz then alloc i
     else if fst sz < 1 \<or> snd sz < 1 then raise ValueError
     else alloc (resize_img P i sz))"

text \<open>\<^verbatim>\<open>im.thumbnail((1, 1))\<close> changes \<open>im\<close> in place (Pillow 9): an image that already
  fits into 1 by 1 is left alone; otherwise the aspect ratio \<^verbatim>\<open>width / height\<close> is
  computed, which raises \<^verbatim>\<open>ZeroDivisionError\<close> at height 0, and the image is resampled
  to 1 by 1.\<close>

definition Image_thumbnail_1x1 :: "pillow \<Rightarrow> ref \<Rightarrow> unit pil" where
  "Image_thumbnail_1x1 P im =
     bnd (deref im) (\<lambda>i.
     if width i \<le> 1 \<and> height i \<le> 1 then ret ()
     else if height i = 0 then raise ZeroDivisionError
     else if width i = 0 then
       (case thumbnail_empty P i of
          Inl e \<Rightarrow> raise e
        | Inr v \<Rightarrow> assign im (one_pixel_img (mode i) v))
     else assign im (one_pixel_img (mode i) (thumbnail_1x1 P i)))"

text \<open>\<^verbatim>\<open>im.getpixel((x, y))\<close> on a single-band image, at a coordinate that is not
  negative: the value of the band, or \<^verbatim>\<open>IndexError\<close> outside the image.\<close>

definition Image_getpixel_L :: "ref \<Rightarrow> int \<times> int \<Rightarrow> int pil" where
  "Image_getpixel_L im xy =
     bnd (deref im) (\<lambda>i.
     if inside i (fst xy) (snd xy) then ret (uint (fst (px i (fst xy) (snd xy))))
     else raise IndexError)"

text \<open>\<^verbatim>\<open>pixels = im.load()\<close>, then \<^verbatim>\<open>pixels[x, y]\<close> and \<^verbatim>\<open>pixels[x, y] = v\<close> on an
  RGBA image: access to the buffer of \<open>im\<close> itself, \<^verbatim>\<open>IndexError\<close> outside it.\<close>

definition PixelAccess_get :: "ref \<Rightarrow> int \<times> int \<Rightarrow> rgba pil" where
  "PixelAccess_get im xy =
     bnd (deref im) (\<lambda>i.
     if inside i (fst xy) (snd xy) then ret (px i (fst xy) (snd xy))
     else raise IndexError)"

definition PixelAccess_set :: "ref \<Rightarrow> int \<times> int \<Rightarrow> rgba \<Rightarrow> unit pil" where
  "PixelAccess_set im xy v =
     bnd (deref im) (\<lambda>i.
     if inside i (fst xy) (snd xy) then assign im (putpixel_img i xy v)
     else raise IndexError)"

text \<open>\<^verbatim>\<open>im.point(f, mode='1')\<close> on an \<^verbatim>\<open>L\<close> image returns a new image: the function is
  tabulated on \<open>0..255\<close>, the table entries are clipped to bytes, and every pixel is
  looked up.\<close>

definition Image_point_1 :: "ref \<Rightarrow> (int \<Rightarrow> int) \<Rightarrow> ref pil" where
  "Image_point_1 im f = bnd (deref im) (\<lambda>i. alloc (point_1_img f i))"

text \<open>\<^verbatim>\<open>im.getcolors()\<close> on an RGBA image, with the default \<^verbatim>\<open>maxcolors=256\<close>: the
  list of (count, colour) for every colour that occurs, or \<^verbatim>\<open>None\<close> when more than 256
  colours occur. Pillow lists the colours in the order of its hash table; here they
  are listed in raster order, and nothing below depends on the order.\<close>

definition Image_getcolors :: "ref \<Rightarrow> (nat \<times> rgba) list option pil" where
  "Image_getcolors im = bnd (deref im) (\<lambda>i. ret (getcolors_img i))"

section \<open>The functions of imageEdit.py\<close>

text \<open>Python's \<^verbatim>\<open>xs[n]\<close> for a literal index \<open>n \<ge> 0\<close>, and \<^verbatim>\<open>max\<close> of a sequence.\<close>

definition getitem :: "'a list \<Rightarrow> nat \<Rightarrow> 'a pil" where
  "getitem xs n = (if n < length xs then ret (xs ! n) else raise IndexError)"

fun py_max :: "int list \<Rightarrow> int pil" where
  "py_max [] = raise ValueError"
| "py_max (x # xs) = ret (fold max xs x)"


text \<open>\<^verbatim>\<open>resizeImageAbs\<close>, \<^verbatim>\<open>resizeImageSquare\<close>, \<^verbatim>\<open>resizeImage\<close> (lines 116 to 158).\<close>

definition resizeImageAbs :: "pillow \<Rightarrow> ref \<Rightarrow> int \<Rightarrow> int \<Rightarrow> ref pil" where
  "resizeImageAbs P img w h = Image_resize P img (w, h)"

definition resizeImageSquare :: "pillow \<Rightarrow> ref \<Rightarrow> int \<Rightarrow> ref pil" where
  "resizeImageSquare P img sz = resizeImageAbs P img sz sz"



text \<open>Python's \<^verbatim>\<open>range(n)\<close>, \<^verbatim>\<open>for x in xs: body\<close>, and
  \<^verbatim>\<open>sorted(colors, key=getKey, reverse=True)\<close>, which is stable and raises
  \<^verbatim>\<open>TypeError\<close> on \<^verbatim>\<open>None\<close>.\<close>

definition py_range :: "int \<Rightarrow> int list" where
  "py_range n = map int [0..<nat n]"

fun for_each :: "'a list \<Rightarrow> ('a \<Rightarrow> unit pil) \<Rightarrow> unit pil" where
  "for_each [] body = ret ()"
| "for_each (x # xs) body = bnd (body x) (\<lambda>_. for_each xs body)"

definition sorted_reverse :: "(nat \<times> rgba) list option \<Rightarrow> (nat \<times> rgba) list pil" where
  "sorted_reverse colors =
     (case colors of
        None \<Rightarrow> raise TypeError
      | Some cs \<Rightarrow> ret (rev (sort_key fst (rev cs))))"

text \<open>\<^verbatim>\<open>roundCorners\<close> (lines 32 to 57).\<close>

definition roundCorners :: "pillow \<Rightarrow> ref \<Rightarrow> int \<Rightarrow> ref pil" where
  "roundCorners P img radius =
     bnd (Image_new_RGBA P (radius * 2, radius * 2) (0, 0, 0, 0)) (\<lambda>circle.
     bnd (ImageDraw_ellipse P circle (0, 0, radius * 2, radius * 2) (255, 255, 255, 255)) (\<lambda>_.
     bnd (Image_size img) (\<lambda>sz.
     bnd (Image_new_RGBA P sz (255, 255, 255, 255)) (\<lambda>alpha.
     bnd (Image_size img) (\<lambda>sz.
     bnd (Image_new_RGBA P sz (0, 0, 0, 0)) (\<lambda>background.
     bnd (Image_size img) (\<lambda>(w, h).
     bnd (Image_crop circle (0, 0, radius, radius)) (\<lambda>c.
     bnd (Image_paste alpha c (0, 0) None) (\<lambda>_.
     bnd (Image_crop circle (0, radius, radius, radius * 2)) (\<lambda>c.
     bnd (Image_paste alpha c (0, h - radius) None) (\<lambda>_.
     bnd (Image_crop circle (radius, 0, radius * 2, radius)) (\<lambda>c.
     bnd (Image_paste alpha c (w - radius, 0) None) (\<lambda>_.
     bnd (Image_crop circle (radius, radius, radius * 2, radius * 2)) (\<lambda>c.
     bnd (Image_paste alpha c (w - radius, h - radius) None) (\<lambda>_.
     bnd (Image_convert_RGBA alpha) (\<lambda>m.
     bnd (Image_paste background img (0, 0) (Some m)) (\<lambda>_.
     ret background)))))))))))))))))"

text \<open>\<^verbatim>\<open>addDropShadowComplex\<close> (lines 73 to 113). The colours are RGBA tuples, which
  \<^verbatim>\<open>Image.new\<close> takes as well as colour strings. The offset is a Python list.\<close>

fun blur_loop :: "pillow \<Rightarrow> nat \<Rightarrow> ref \<Rightarrow> ref pil" where
  "blur_loop P 0 background = ret background"
| "blur_loop P (Suc n) background =
     bnd (Image_filter_BLUR P background) (\<lambda>background. blur_loop P n background)"

definition addDropShadowComplex ::
  "pillow \<Rightarrow> ref \<Rightarrow> int \<Rightarrow> int \<Rightarrow> int list \<Rightarrow> rgba \<Rightarrow> rgba \<Rightarrow> ref pil" where
  "addDropShadowComplex P img iterations border offset backgroundColour shadowColour =
     bnd (Image_size img) (\<lambda>originalSize.
     bnd (getitem offset 0) (\<lambda>offset0.
     bnd (getitem offset 1) (\<lambda>offset1.
     let fullWidth = fst originalSize + \<bar>offset0\<bar> + 2 * border;
         fullHeight = snd originalSize + \<bar>offset1\<bar> + 2 * border in
     bnd (Image_new_RGBA P (fullWidth, fullHeight) backgroundColour) (\<lambda>background.
     bnd (Image_new_RGBA P (fst originalSize, snd originalSize) shadowColour) (\<lambda>shadow.
     let shadowLeft = border + max offset0 0;
         shadowTop = border + max offset1 0 in
     bnd (Image_convert_RGBA shadow) (\<lambda>shadowRGBA.
     bnd (Image_convert_RGBA img) (\<lambda>m.
     bnd (Image_paste background shadowRGBA (shadowLeft, shadowTop) (Some m)) (\<lambda>_.
     bnd (blur_loop P (nat iterations) background) (\<lambda>background.
     let imgLeft = border - min offset0 0;
         imgTop = border - min offset1 0 in
     bnd (Image_convert_RGBA img) (\<lambda>imageRGBA.
     bnd (Image_convert_RGBA img) (\<lambda>m.
     bnd (Image_paste background imageRGBA (imgLeft, imgTop) (Some m)) (\<lambda>_.
     resizeImageAbs P background (fst originalSize) (snd originalSize)))))))))))))"

text \<open>\<^verbatim>\<open>addDropShadowSimple\<close> (lines 60 to 71); \<^verbatim>\<open>"#ffffff00"\<close> is
  \<open>(255, 255, 255, 0)\<close> and \<^verbatim>\<open>"#00000055"\<close> is \<open>(0, 0, 0, 85)\<close>.\<close>

definition addDropShadowSimple :: "pillow \<Rightarrow> ref \<Rightarrow> int list \<Rightarrow> ref pil" where
  "addDropShadowSimple P img offset =
     bnd (py_max (map abs offset)) (\<lambda>border.
     addDropShadowComplex P img 11 border offset (255, 255, 255, 0) (0, 0, 0, 85))"

text \<open>\<^verbatim>\<open>convertBlackAndWhite\<close> (lines 284 to 346). \<^verbatim>\<open>filterColour\<close> and
  \<^verbatim>\<open>threshold\<close> are local variables that only some modes bind: reading one that was
  not bound raises \<^verbatim>\<open>UnboundLocalError\<close>.\<close>

fun cmpTup_loop :: "(int \<times> int) list \<Rightarrow> bool" where
  "cmpTup_loop [] = True"
| "cmpTup_loop ((a, b) # rest) =
     (if a > b + 10 \<or> a < b - 10 then False else cmpTup_loop rest)"

definition bands :: "rgba \<Rightarrow> int list" where
  "bands p = (case p of (r, g, b, a) \<Rightarrow> [uint r, uint g, uint b, uint a])"

definition cmpTup :: "rgba \<Rightarrow> rgba \<Rightarrow> bool" where
  "cmpTup tupleA tupleB = cmpTup_loop (zip (bands tupleA) (bands tupleB))"

definition unbound :: "'a option \<Rightarrow> 'a pil" where
  "unbound v = (case v of None \<Rightarrow> raise UnboundLocalError | Some x \<Rightarrow> ret x)"

definition convertBlackAndWhite :: "pillow \<Rightarrow> ref \<Rightarrow> string \<Rightarrow> ref pil" where
  "convertBlackAndWhite P img md =
     bnd (if md = ''background'' \<or> md = ''foreground'' then
            bnd (Image_convert_RGBA img) (\<lambda>rgbaImage.
            bnd (Image_getcolors rgbaImage) (\<lambda>colors.
            bnd (if md = ''background'' then
                   bnd (sorted_reverse colors) (\<lambda>srt.
                   bnd (getitem srt 0) (\<lambda>e. ret (Some (snd e))))
                 else ret None) (\<lambda>filterColour.
            if md = ''foreground'' then
              bnd (sorted_reverse colors) (\<lambda>srt.
              bnd (getitem srt 1) (\<lambda>e. ret (Some (snd e))))
            else ret filterColour)))
          else ret None) (\<lambda>filterColour.
     bnd (Image_convert_L img) (\<lambda>im.
     bnd (Image_thumbnail_1x1 P im) (\<lambda>_.
     bnd (Image_getpixel_L im (0, 0)) (\<lambda>averageColour.
     let threshold = (if md = ''filter-darker''
                      then Some (\<lambda>pixel. if pixel < averageColour then 0 else 255)
                      else None);
         threshold = (if md = ''filter-lighter''
                      then Some (\<lambda>pixel. if pixel > averageColour then 0 else 255)
                      else threshold) in
     bnd (if md = ''background'' \<or> md = ''foreground'' then
            bnd (Image_convert_RGBA img) (\<lambda>converted.
            bnd (Image_size img) (\<lambda>sz.
            bnd (for_each (py_range (fst sz)) (\<lambda>i.
                 for_each (py_range (snd sz)) (\<lambda>j.
                   bnd (PixelAccess_get converted (i, j)) (\<lambda>p.
                   bnd (unbound filterColour) (\<lambda>fc.
                   if md = ''background'' then
                     (if cmpTup p fc
                      then PixelAccess_set converted (i, j) (255, 255, 255, 255)
                      else PixelAccess_set converted (i, j) (0, 0, 0, 255))
                   else
                     (if \<not> cmpTup p fc
                      then PixelAccess_set converted (i, j) (255, 255, 255, 255)
                      else PixelAccess_set converted (i, j) (0, 0, 0, 255))))))) (\<lambda>_.
            ret converted)))
          else
            bnd (Image_convert_L img) (\<lambda>grey.
            bnd (unbound threshold) (\<lambda>f.
            Image_point_1 grey f))) (\<lambda>converted.
     Image_convert_RGBA converted)))))"

section \<open>Descriptions used in the statements\<close>

text \<open>The store the blur loop leaves, and the reference it returns, in closed form: \<open>n\<close>
  iterations allocate \<open>n\<close> objects, the \<open>j\<close>-th being the canvas blurred \<open>j\<close> times.\<close>

definition after_blur :: "pillow \<Rightarrow> nat \<Rightarrow> ref \<Rightarrow> store \<Rightarrow> store" where
  "after_blur P n background s =
     s\<lparr>cells := (\<lambda>k. if lim s \<le> k \<and> k < lim s + n
                       then (blur_img P ^^ Suc (k - lim s)) (cells s background)
                       else cells s k),
       lim := lim s + n\<rparr>"

definition after_blur_ref :: "nat \<Rightarrow> ref \<Rightarrow> store \<Rightarrow> ref" where
  "after_blur_ref n background s = (if n = 0 then background else lim s + n - 1)"


text \<open>The grey value of a pixel, and the single average the filter modes compare with:
  the grey image downsampled to 1 by 1 (an image of one pixel is its own thumbnail).\<close>

definition luminance :: "image \<Rightarrow> int \<Rightarrow> int \<Rightarrow> int" where
  "luminance i x y = uint (fst (to_L_px (mode i) (px i x y)))"

definition average_luminance :: "pillow \<Rightarrow> image \<Rightarrow> int" where
  "average_luminance P i =
     (if width i \<le> 1 \<and> height i \<le> 1 then luminance i 0 0
      else uint (fst (thumbnail_1x1 P (convert_L_img i))))"

text \<open>The number of distinct colours of an image, counted on its RGBA conversion as
  \<^verbatim>\<open>convertBlackAndWhite\<close> does.\<close>

definition distinct_colours :: "image \<Rightarrow> nat" where
  "distinct_colours i = length (remdups (raster (convert_RGBA_img i)))"

text \<open>An image in which the pixels selected by \<open>D\<close> are replaced by a function of
  their own value: what the pixel loop of \<^verbatim>\<open>convertBlackAndWhite\<close> leaves.\<close>

definition recolour :: "(rgba \<Rightarrow> rgba) \<Rightarrow> (int \<Rightarrow> int \<Rightarrow> bool) \<Rightarrow> image \<Rightarrow> image" where
  "recolour g D i = i\<lparr>px := (\<lambda>x y. if D x y then g (px i x y) else px i x y)\<rparr>"

text \<open>The colour the pixel loop of \<^verbatim>\<open>convertBlackAndWhite\<close> writes for a pixel \<open>p\<close>
  when the filter colour is \<open>fc\<close>: in mode \<^verbatim>\<open>background\<close> white when \<open>p\<close> is within 10 per
  band of \<open>fc\<close> and black otherwise, in the other histogram mode the opposite.\<close>

definition classify :: "string \<Rightarrow> rgba \<Rightarrow> rgba \<Rightarrow> rgba" where
  "classify md fc p =
     (if md = ''background''
      then (if cmpTup p fc then (255, 255, 255, 255) else (0, 0, 0, 255))
      else (if \<not> cmpTup p fc then (255, 255, 255, 255) else (0, 0, 0, 255)))"

text \<open>The sizes \<^verbatim>\<open>Image.new\<close> accepts: no dimension is negative or above \<^verbatim>\<open>INT_MAX\<close>,
  and the memory of the image can be allocated.\<close>

definition Image_new_accepts :: "pillow \<Rightarrow> int \<times> int \<Rightarrow> bool" where
  "Image_new_accepts P sz =
     (0 \<le> fst sz \<and> 0 \<le> snd sz \<and> fst sz \<le> INT_MAX \<and> snd sz \<le> INT_MAX
      \<and> \<not> out_of_memory P sz)"

section \<open>Observing a run, and concrete inputs\<close>

text \<open>What a run returned, and the object a reference holds after a run.\<close>

definition value_of :: "error + 'a \<times> store \<Rightarrow> error + 'a" where
  "value_of r = (case r of Inl e \<Rightarrow> Inl e | Inr (x, s') \<Rightarrow> Inr x)"

definition object_after :: "error + 'a \<times> store \<Rightarrow> ref \<Rightarrow> image option" where
  "object_after r k = (case r of Inl e \<Rightarrow> None | Inr (x, s') \<Rightarrow> Some (cells s' k))"

text \<open>The image a run returned: the object its result refers to.\<close>

definition image_of :: "error + ref \<times> store \<Rightarrow> error + image" where
  "image_of r = (case r of Inl e \<Rightarrow> Inl e | Inr (x, s') \<Rightarrow> Inr (cells s' x))"

text \<open>An instance of the open parts of Pillow (a blur that copies, a resampling that
  repeats the upper left pixel), a gradient image, and a store that holds one image at
  reference 0.\<close>

definition example_pillow :: pillow where
  "example_pillow =
     \<lparr>ellipse_covers = (\<lambda>box x y. True), BLUR = px,
      ANTIALIAS = (\<lambda>i sz x y. px i 0 0),
      thumbnail_1x1 = (\<lambda>i. px i 0 0),
      thumbnail_empty = (\<lambda>i. Inl ValueError),
      out_of_memory = (\<lambda>sz. False)\<rparr>"

definition gradient :: "mode \<Rightarrow> nat \<Rightarrow> nat \<Rightarrow> image" where
  "gradient m w h =
     \<lparr>mode = m, width = w, height = h, px = (\<lambda>x y. (of_int x, of_int y, 0, 255))\<rparr>"

text \<open>An image of one row whose pixels are pairwise different up to width 65536.\<close>

definition ramp :: "nat \<Rightarrow> image" where
  "ramp w =
     \<lparr>mode = Mode_RGBA, width = w, height = 1,
      px = (\<lambda>x y. (of_nat (nat x), of_nat (nat x div 256), 0, 255))\<rparr>"

definition store_with :: "image \<Rightarrow> store" where
  "store_with i = \<lparr>cells = (\<lambda>r. i), lim = 1\<rparr>"

section \<open>Running computations\<close>

lemma bnd_ret: "bnd (ret x) f = f x"
  by (simp add: bnd_def ret_def)

lemma bnd_raise: "bnd (raise e) f = raise e"
  by (simp add: bnd_def raise_def)

lemma bnd_Inr: "m s = Inr (x, s') \<Longrightarrow> bnd m f s = f x s'"
  by (simp add: bnd_def)

lemma bnd_Inl: "m s = Inl e \<Longrightarrow> bnd m f s = Inl e"
  by (simp add: bnd_def)

lemma Image_size_run: "Image_size im s = Inr (size_of (cells s im), s)"
  by (simp add: Image_size_def bnd_def deref_def ret_def)

lemma Image_crop_run:
  "Image_crop im (left, upper, right, lower) s =
     (if right < left \<or> lower < upper then Inl ValueError
      else Inr (lim s,
                s\<lparr>cells := (cells s)(lim s := crop_img (cells s im) (left, upper, right, lower)),
                  lim := Suc (lim s)\<rparr>))"
  by (simp add: Image_crop_def bnd_def deref_def alloc_def raise_def)

lemma Image_new_RGBA_run:
  "Image_new_RGBA P sz c s =
     (if Image_new_accepts P sz
      then Inr (lim s, s\<lparr>cells := (cells s)(lim s := new_img sz c), lim := Suc (lim s)\<rparr>)
      else if fst sz < 0 \<or> snd sz < 0 then Inl ValueError
      else if INT_MAX < fst sz \<or> INT_MAX < snd sz then Inl OverflowError
      else Inl MemoryError)"
  by (auto simp add: Image_new_RGBA_def Image_new_accepts_def alloc_def raise_def)

lemma Image_new_accepts_example:
  "Image_new_accepts example_pillow sz =
     (0 \<le> fst sz \<and> 0 \<le> snd sz \<and> fst sz \<le> 2147483647 \<and> snd sz \<le> 2147483647)"
  by (simp add: Image_new_accepts_def example_pillow_def INT_MAX_def)

lemma ImageDraw_ellipse_run:
  "ImageDraw_ellipse P im box fill s =
     Inr ((), s\<lparr>cells := (cells s)(im := ellipse_img P box fill (cells s im))\<rparr>)"
  by (simp add: ImageDraw_ellipse_def bnd_def deref_def assign_def)

lemma Image_paste_run:
  "Image_paste dst src pos None s =
     Inr ((), s\<lparr>cells := (cells s)(dst := paste_img (cells s dst) (cells s src) pos)\<rparr>)"
  by (simp add: Image_paste_def bnd_def deref_def assign_def)

lemma Image_paste_mask_run:
  "Image_paste dst src pos (Some m) s =
     (if size_of (cells s m) \<noteq> size_of (cells s src) then Inl ValueError
      else Inr ((), s\<lparr>cells := (cells s)(dst :=
                        paste_mask_img (cells s dst) (cells s src) pos (cells s m))\<rparr>))"
  by (simp add: Image_paste_def bnd_def deref_def assign_def raise_def)

lemma Image_convert_RGBA_run:
  "Image_convert_RGBA im s =
     Inr (lim s, s\<lparr>cells := (cells s)(lim s := convert_RGBA_img (cells s im)), lim := Suc (lim s)\<rparr>)"
  by (simp add: Image_convert_RGBA_def bnd_def deref_def alloc_def)

lemma Image_convert_L_run:
  "Image_convert_L im s =
     Inr (lim s, s\<lparr>cells := (cells s)(lim s := convert_L_img (cells s im)), lim := Suc (lim s)\<rparr>)"
  by (simp add: Image_convert_L_def bnd_def deref_def alloc_def)

lemma Image_filter_BLUR_run:
  "Image_filter_BLUR P im s =
     Inr (lim s, s\<lparr>cells := (cells s)(lim s := blur_img P (cells s im)), lim := Suc (lim s)\<rparr>)"
  by (simp add: Image_filter_BLUR_def bnd_def deref_def alloc_def)

lemma Image_resize_run:
  "Image_resize P im sz s =
     (if size_of (cells s im) = sz
      then Inr (lim s, s\<lparr>cells := (cells s)(lim s := cells s im), lim := Suc (lim s)\<rparr>)
      else if fst sz < 1 \<or> snd sz < 1 then Inl ValueError
      else Inr (lim s, s\<lparr>cells := (cells s)(lim s := resize_img P (cells s im) sz),
                         lim := Suc (lim s)\<rparr>))"
  by (simp add: Image_resize_def bnd_def deref_def alloc_def raise_def)

lemma bnd_apply: "bnd m f s = (case m s of Inl e \<Rightarrow> Inl e | Inr (x, s') \<Rightarrow> f x s')"
  by (simp add: bnd_def)

lemma ret_apply: "ret x s = Inr (x, s)"
  by (simp add: ret_def)

lemmas run_simps = bnd_apply ret_apply Image_size_run Image_new_RGBA_run ImageDraw_ellipse_run
  Image_crop_run Image_paste_run Image_paste_mask_run Image_convert_RGBA_run
  Image_convert_L_run Image_filter_BLUR_run Image_resize_run

lemma dims_simps:
  "width (new_img sz c) = nat (fst sz)" "height (new_img sz c) = nat (snd sz)"
  "width (ellipse_img P box fill i) = width i" "height (ellipse_img P box fill i) = height i"
  "width (paste_img d src pos) = width d" "height (paste_img d src pos) = height d"
  "width (paste_mask_img d src pos m) = width d" "height (paste_mask_img d src pos m) = height d"
  "width (convert_RGBA_img i) = width i" "height (convert_RGBA_img i) = height i"
  "width (convert_L_img i) = width i" "height (convert_L_img i) = height i"
  "width (blur_img P i) = width i" "height (blur_img P i) = height i"
  "width (crop_img i (l, u, r, lo)) = nat (r - l)" "height (crop_img i (l, u, r, lo)) = nat (lo - u)"
  "width (resize_img P i sz) = nat (fst sz)" "height (resize_img P i sz) = nat (snd sz)"
  by (simp_all add: new_img_def ellipse_img_def paste_img_def paste_mask_img_def
      convert_RGBA_img_def convert_L_img_def blur_img_def crop_img_def resize_img_def)

lemma DIV255_255: "n < 256 \<Longrightarrow> DIV255 (n * 255) = n"
  by (simp add: DIV255_def Let_def)


lemma BLEND_0: "BLEND 0 a b = a"
  using DIV255_255 [of "unat a"] unsigned_less [of a, where 'a = nat]
  by (simp add: BLEND_def)


lemma blend_px_0: "blend_px 0 p q = p"
  by (cases p, cases q) (simp add: blend_px_def BLEND_0)


lemma px_simps:
  "px (new_img sz c) x y = c"
  "px (convert_RGBA_img i) x y = to_RGBA_px (mode i) (px i x y)"
  "px (paste_mask_img d src pos m) x y =
     (if covers src pos x y
      then blend_px (alpha_of (px m (x - fst pos) (y - snd pos))) (px d x y)
             (to_RGBA_px (mode src) (px src (x - fst pos) (y - snd pos)))
      else px d x y)"
  by (simp_all add: new_img_def convert_RGBA_img_def paste_mask_img_def)

lemma mode_simps:
  "mode (new_img sz c) = Mode_RGBA"
  "mode (convert_RGBA_img i) = Mode_RGBA"
  "mode (convert_L_img i) = Mode_L"
  "mode (paste_img d src pos) = mode d"
  "mode (paste_mask_img d src pos m) = mode d"
  "mode (blur_img P i) = mode i"
  "mode (resize_img P i sz) = mode i"
  by (simp_all add: new_img_def convert_RGBA_img_def convert_L_img_def paste_img_def
      paste_mask_img_def blur_img_def resize_img_def)







lemma after_blur_0: "after_blur P 0 background s = s"
  by (rule store.equality) (auto simp add: after_blur_def fun_eq_iff)

lemma after_blur_Suc:
  assumes "background < lim s"
  shows "after_blur P n (lim s)
           (s\<lparr>cells := (cells s)(lim s := blur_img P (cells s background)), lim := Suc (lim s)\<rparr>) =
         after_blur P (Suc n) background s"
    (is "after_blur P n (lim s) ?s1 = _")
proof (intro store.equality ext)
  fix k
  consider "k < lim s" | "k = lim s" | "Suc (lim s) \<le> k" "k < Suc (lim s + n)" | "Suc (lim s + n) \<le> k"
    by linarith
  then show "cells (after_blur P n (lim s) ?s1) k = cells (after_blur P (Suc n) background s) k"
  proof cases
    case 1
    then show ?thesis by (simp add: after_blur_def)
  next
    case 2
    then show ?thesis by (simp add: after_blur_def)
  next
    case 3
    then have "k - lim s = Suc (k - Suc (lim s))" by linarith
    with 3 show ?thesis
      by (simp add: after_blur_def funpow_swap1)
  next
    case 4
    then show ?thesis by (simp add: after_blur_def)
  qed
qed (simp_all add: after_blur_def)

lemma blur_loop_run:
  "background < lim s \<Longrightarrow>
   blur_loop P n background s = Inr (after_blur_ref n background s, after_blur P n background s)"
proof (induction n arbitrary: background s)
  case 0
  then show ?case
    by (simp add: after_blur_0 after_blur_ref_def ret_apply)
next
  case (Suc n)
  let ?s1 = "s\<lparr>cells := (cells s)(lim s := blur_img P (cells s background)), lim := Suc (lim s)\<rparr>"
  have "blur_loop P (Suc n) background s = blur_loop P n (lim s) ?s1"
    by (simp add: bnd_apply Image_filter_BLUR_run)
  also have "\<dots> = Inr (after_blur_ref n (lim s) ?s1, after_blur P n (lim s) ?s1)"
    by (rule Suc.IH) simp
  also have "after_blur P n (lim s) ?s1 = after_blur P (Suc n) background s"
    using Suc.prems by (rule after_blur_Suc)
  also have "after_blur_ref n (lim s) ?s1 = after_blur_ref (Suc n) background s"
    by (simp add: after_blur_ref_def)
  finally show ?case .
qed

lemma lim_after_blur: "lim (after_blur P n background s) = lim s + n"
  by (simp add: after_blur_def)

lemma cells_after_blur_old: "k < lim s \<Longrightarrow> cells (after_blur P n background s) k = cells s k"
  by (simp add: after_blur_def)

lemma cells_after_blur_ref:
  "background < lim s \<Longrightarrow>
   cells (after_blur P n background s) (after_blur_ref n background s) =
     (blur_img P ^^ n) (cells s background)"
  by (cases n) (simp_all add: after_blur_def after_blur_ref_def del: funpow.simps)

lemma after_blur_ref_less: "background < lim s \<Longrightarrow> after_blur_ref n background s < lim s + n"
  by (simp add: after_blur_ref_def)


lemma getitem_run:
  "getitem xs n s = (if n < length xs then Inr (xs ! n, s) else Inl IndexError)"
  by (simp add: getitem_def ret_def raise_def)

lemma addDropShadowComplex_run:
  fixes border :: int
  assumes img: "img < lim s"
    and canvas_ok: "Image_new_accepts P (int (width (cells s img)) + \<bar>ox\<bar> + 2 * border,
                                     int (height (cells s img)) + \<bar>oy\<bar> + 2 * border)"
    and shadow_ok: "Image_new_accepts P (size_of (cells s img))"
  shows "\<exists>r s'. addDropShadowComplex P img iterations border [ox, oy] bg sh s =
                  resizeImageAbs P r (int (width (cells s img))) (int (height (cells s img))) s'
      \<and> lim s \<le> r \<and> r < lim s' \<and> (\<forall>k<lim s. cells s' k = cells s k)
      \<and> cells s' r =
          paste_mask_img
            ((blur_img P ^^ nat iterations)
               (paste_mask_img
                  (new_img (int (width (cells s img)) + \<bar>ox\<bar> + 2 * border,
                            int (height (cells s img)) + \<bar>oy\<bar> + 2 * border) bg)
                  (convert_RGBA_img (new_img (size_of (cells s img)) sh))
                  (border + max ox 0, border + max oy 0)
                  (convert_RGBA_img (cells s img))))
            (convert_RGBA_img (cells s img))
            (border - min ox 0, border - min oy 0)
            (convert_RGBA_img (cells s img))"
proof -
  let ?i = "cells s img"
  let ?w = "int (width ?i)" and ?h = "int (height ?i)"
  let ?stamped = "paste_mask_img (new_img (?w + \<bar>ox\<bar> + 2 * border, ?h + \<bar>oy\<bar> + 2 * border) bg)
      (convert_RGBA_img (new_img (size_of ?i) sh)) (border + max ox 0, border + max oy 0)
      (convert_RGBA_img ?i)"
  define s1 where "s1 = s\<lparr>lim := Suc (Suc (Suc (Suc (lim s)))),
     cells := (cells s)
      (Suc (lim s) := new_img (size_of ?i) sh,
       Suc (Suc (lim s)) := convert_RGBA_img (new_img (size_of ?i) sh),
       Suc (Suc (Suc (lim s))) := convert_RGBA_img ?i,
       lim s := ?stamped)\<rparr>"
  let ?post = "\<lambda>background.
     bnd (Image_convert_RGBA img) (\<lambda>imageRGBA.
     bnd (Image_convert_RGBA img) (\<lambda>m.
     bnd (Image_paste background imageRGBA (border - min ox 0, border - min oy 0) (Some m)) (\<lambda>_.
     resizeImageAbs P background ?w ?h)))"
  have pre: "addDropShadowComplex P img iterations border [ox, oy] bg sh s =
      bnd (blur_loop P (nat iterations) (lim s)) ?post s1"
    using img canvas_ok shadow_ok
    by (simp add: addDropShadowComplex_def Let_def run_simps dims_simps size_of_def
        getitem_run s1_def)
  define r where "r = after_blur_ref (nat iterations) (lim s) s1"
  define s2 where "s2 = after_blur P (nat iterations) (lim s) s1"
  have l1: "lim s < lim s1"
    by (simp add: s1_def)
  have loop: "blur_loop P (nat iterations) (lim s) s1 = Inr (r, s2)"
    unfolding r_def s2_def using l1 by (rule blur_loop_run)
  have lim2: "lim s2 = lim s1 + nat iterations"
    by (simp add: s2_def lim_after_blur)
  have r_less: "r < lim s2"
    unfolding r_def lim2 using l1 by (rule after_blur_ref_less)
  have r_ge: "lim s \<le> r"
    by (simp add: r_def after_blur_ref_def s1_def)
  have old: "cells s2 k = cells s k" if "k < lim s" for k
    using that by (simp add: s2_def cells_after_blur_old s1_def)
  have canvas: "cells s2 r = (blur_img P ^^ nat iterations) ?stamped"
    unfolding r_def s2_def using l1
    by (simp add: cells_after_blur_ref) (simp add: s1_def)
  define s3 where "s3 = s2\<lparr>lim := Suc (Suc (lim s2)),
     cells := (cells s2)
      (lim s2 := convert_RGBA_img ?i,
       Suc (lim s2) := convert_RGBA_img ?i,
       r := paste_mask_img (cells s2 r) (convert_RGBA_img ?i)
              (border - min ox 0, border - min oy 0) (convert_RGBA_img ?i))\<rparr>"
  have post: "?post r s2 = resizeImageAbs P r ?w ?h s3"
    using r_less img old [OF img] lim2 l1
    by (simp add: run_simps dims_simps size_of_def s3_def)
  have "addDropShadowComplex P img iterations border [ox, oy] bg sh s = resizeImageAbs P r ?w ?h s3"
    using bnd_Inr [of "blur_loop P (nat iterations) (lim s)" s1 r s2 ?post, OF loop]
    by (simp only: pre post)
  moreover have "r < lim s3"
    using r_less by (simp add: s3_def)
  moreover have "\<forall>k<lim s. cells s3 k = cells s k"
    using old r_ge lim2 l1 by (auto simp add: s3_def)
  moreover have "cells s3 r = paste_mask_img ((blur_img P ^^ nat iterations) ?stamped)
      (convert_RGBA_img ?i) (border - min ox 0, border - min oy 0) (convert_RGBA_img ?i)"
    by (simp add: s3_def canvas)
  ultimately show ?thesis
    using r_ge by blast
qed



lemma Image_thumbnail_1x1_run:
  "Image_thumbnail_1x1 P im s =
     (if width (cells s im) \<le> 1 \<and> height (cells s im) \<le> 1 then Inr ((), s)
      else if height (cells s im) = 0 then Inl ZeroDivisionError
      else if width (cells s im) = 0 then
        (case thumbnail_empty P (cells s im) of
           Inl e \<Rightarrow> Inl e
         | Inr v \<Rightarrow> Inr ((), s\<lparr>cells := (cells s)(im := one_pixel_img (mode (cells s im)) v)\<rparr>))
      else Inr ((), s\<lparr>cells := (cells s)(im :=
              one_pixel_img (mode (cells s im)) (thumbnail_1x1 P (cells s im)))\<rparr>))"
  by (simp add: Image_thumbnail_1x1_def bnd_def deref_def assign_def ret_def raise_def
      split: sum.split)

lemma Image_getpixel_L_run:
  "Image_getpixel_L im xy s =
     (if inside (cells s im) (fst xy) (snd xy)
      then Inr (uint (fst (px (cells s im) (fst xy) (snd xy))), s)
      else Inl IndexError)"
  by (simp add: Image_getpixel_L_def bnd_def deref_def ret_def raise_def)

lemma Image_point_1_run:
  "Image_point_1 im f s =
     Inr (lim s, s\<lparr>cells := (cells s)(lim s := point_1_img f (cells s im)), lim := Suc (lim s)\<rparr>)"
  by (simp add: Image_point_1_def bnd_def deref_def alloc_def)

lemma unbound_run:
  "unbound v s = (case v of None \<Rightarrow> Inl UnboundLocalError | Some x \<Rightarrow> Inr (x, s))"
  by (simp add: unbound_def raise_def ret_def split: option.split)

lemma px_point_1_img:
  "px (point_1_img f i) x y = (CLIP8 (f (uint (fst (px i x y)))), 0, 0, 0)"
  "width (point_1_img f i) = width i" "height (point_1_img f i) = height i"
  "mode (point_1_img f i) = Mode_1"
  by (simp_all add: point_1_img_def)

lemma px_convert_L_img: "px (convert_L_img i) x y = to_L_px (mode i) (px i x y)"
  by (simp add: convert_L_img_def)

lemma CLIP8_simps: "CLIP8 0 = 0" "CLIP8 255 = 255"
  by (simp_all add: CLIP8_def)

lemma Image_getcolors_run: "Image_getcolors im s = Inr (getcolors_img (cells s im), s)"
  by (simp add: Image_getcolors_def bnd_def deref_def ret_def)

lemma sorted_reverse_run:
  "sorted_reverse colors s =
     (case colors of None \<Rightarrow> Inl TypeError | Some cs \<Rightarrow> Inr (rev (sort_key fst (rev cs)), s))"
  by (simp add: sorted_reverse_def raise_def ret_def split: option.split)

lemma getcolors_img_None: "256 < distinct_colours i \<Longrightarrow> getcolors_img (convert_RGBA_img i) = None"
  by (simp add: getcolors_img_def distinct_colours_def Let_def)

lemma ramp_inj:
  "inj_on (\<lambda>x. (of_nat x :: u8, of_nat (x div 256) :: u8, 0 :: u8, 255 :: u8)) {0..<257}"
proof (rule inj_onI)
  fix x y :: nat
  assume x: "x \<in> {0..<257}" and y: "y \<in> {0..<257}"
    and e: "(of_nat x :: u8, of_nat (x div 256) :: u8, 0 :: u8, 255 :: u8) =
            (of_nat y, of_nat (y div 256), 0, 255)"
  from e have "unat (of_nat x :: u8) = unat (of_nat y :: u8)"
    and "unat (of_nat (x div 256) :: u8) = unat (of_nat (y div 256) :: u8)"
    by simp_all
  then have "x mod 256 = y mod 256" and "(x div 256) mod 256 = (y div 256) mod 256"
    by (simp_all add: unat_of_nat)
  moreover have "x div 256 < 256" and "y div 256 < 256"
    using x y by (simp_all add: less_mult_imp_div_less)
  ultimately have "x mod 256 = y mod 256" and "x div 256 = y div 256"
    by simp_all
  then show "x = y"
    by (metis div_mult_mod_eq)
qed

lemma ramp_colours: "distinct_colours (ramp 257) = 257"
proof -
  have "raster (convert_RGBA_img (ramp 257)) =
      map (\<lambda>x. (of_nat x :: u8, of_nat (x div 256) :: u8, 0 :: u8, 255 :: u8)) [0..<257]"
    by (simp add: raster_def convert_RGBA_img_def ramp_def)
  moreover have "distinct (map (\<lambda>x. (of_nat x :: u8, of_nat (x div 256) :: u8, 0 :: u8, 255 :: u8))
      [0..<257])"
    using ramp_inj by (simp add: distinct_map)
  ultimately show ?thesis
    by (simp only: distinct_colours_def distinct_remdups_id length_map length_upt)
qed

lemma recolour_simps:
  "width (recolour g D i) = width i" "height (recolour g D i) = height i"
  "mode (recolour g D i) = mode i"
  "px (recolour g D i) x y = (if D x y then g (px i x y) else px i x y)"
  by (simp_all add: recolour_def)

lemma recolour_none: "recolour g (\<lambda>x y. False) i = i"
  by (simp add: recolour_def)

lemma putpixel_recolour:
  assumes "\<not> D i j"
  shows "putpixel_img (recolour g D i0) (i, j) (g (px (recolour g D i0) i j)) =
         recolour g (\<lambda>x y. D x y \<or> (x = i \<and> y = j)) i0"
  using assms
  by (intro image.equality ext) (auto simp add: putpixel_img_def recolour_def)

lemma inner_loop:
  assumes body: "\<And>j s. inside (cells s c) i j \<Longrightarrow>
      body j s = Inr ((), s\<lparr>cells := (cells s)(c :=
                    putpixel_img (cells s c) (i, j) (g (px (cells s c) i j)))\<rparr>)"
    and i: "0 \<le> i" "i < int (width i0)"
  shows "distinct js \<Longrightarrow> \<forall>j\<in>set js. 0 \<le> j \<and> j < int (height i0) \<and> \<not> D i j \<Longrightarrow>
         cells s c = recolour g D i0 \<Longrightarrow>
         for_each js body s =
           Inr ((), s\<lparr>cells := (cells s)(c :=
                      recolour g (\<lambda>x y. D x y \<or> (x = i \<and> y \<in> set js)) i0)\<rparr>)"
proof (induction js arbitrary: s D)
  case Nil
  have e: "(\<lambda>x y. D x y \<or> (x = i \<and> y \<in> set [])) = D"
    by simp
  have "(cells s)(c := recolour g D i0) = cells s"
    using Nil.prems(3) by (simp only: fun_upd_idem)
  then have "s\<lparr>cells := (cells s)(c := recolour g D i0)\<rparr> = s"
    by simp
  then show ?case
    by (simp only: for_each.simps ret_apply e)
next
  case (Cons j js)
  let ?D = "\<lambda>x y. D x y \<or> (x = i \<and> y = j)"
  let ?s1 = "s\<lparr>cells := (cells s)(c := recolour g ?D i0)\<rparr>"
  have ins: "inside (cells s c) i j"
    using Cons.prems i by (simp add: inside_def recolour_simps)
  have "\<not> D i j"
    using Cons.prems by simp
  then have step: "body j s = Inr ((), ?s1)"
    using body [OF ins] by (simp add: Cons.prems(3) putpixel_recolour)
  let ?D2 = "\<lambda>x y. ?D x y \<or> (x = i \<and> y \<in> set js)"
  have ih: "for_each js body ?s1 =
      Inr ((), ?s1\<lparr>cells := (cells ?s1)(c := recolour g ?D2 i0)\<rparr>)"
    using Cons.prems by (intro Cons.IH) auto
  have st: "?s1\<lparr>cells := (cells ?s1)(c := X)\<rparr> = s\<lparr>cells := (cells s)(c := X)\<rparr>" for X
    by simp
  have d: "?D2 = (\<lambda>x y. D x y \<or> (x = i \<and> y \<in> set (j # js)))"
    by (auto simp add: fun_eq_iff)
  have "for_each (j # js) body s = for_each js body ?s1"
    by (simp add: bnd_apply step)
  then show ?case
    by (simp only: ih st d)
qed

lemma outer_loop:
  assumes body: "\<And>i j s. inside (cells s c) i j \<Longrightarrow>
      body i j s = Inr ((), s\<lparr>cells := (cells s)(c :=
                      putpixel_img (cells s c) (i, j) (g (px (cells s c) i j)))\<rparr>)"
    and js: "distinct js" "\<forall>j\<in>set js. 0 \<le> j \<and> j < int (height i0)"
  shows "distinct xs \<Longrightarrow>
         \<forall>i\<in>set xs. 0 \<le> i \<and> i < int (width i0) \<and> (\<forall>j\<in>set js. \<not> D i j) \<Longrightarrow>
         cells s c = recolour g D i0 \<Longrightarrow>
         for_each xs (\<lambda>i. for_each js (body i)) s =
           Inr ((), s\<lparr>cells := (cells s)(c :=
                      recolour g (\<lambda>x y. D x y \<or> (x \<in> set xs \<and> y \<in> set js)) i0)\<rparr>)"
proof (induction xs arbitrary: s D)
  case Nil
  have e: "(\<lambda>x y. D x y \<or> (x \<in> set [] \<and> y \<in> set js)) = D"
    by simp
  have "(cells s)(c := recolour g D i0) = cells s"
    using Nil.prems(3) by (simp only: fun_upd_idem)
  then have "s\<lparr>cells := (cells s)(c := recolour g D i0)\<rparr> = s"
    by simp
  then show ?case
    by (simp only: for_each.simps ret_apply e)
next
  case (Cons i xs)
  let ?D = "\<lambda>x y. D x y \<or> (x = i \<and> y \<in> set js)"
  let ?s1 = "s\<lparr>cells := (cells s)(c := recolour g ?D i0)\<rparr>"
  have step: "for_each js (body i) s = Inr ((), ?s1)"
    using Cons.prems js by (intro inner_loop body) auto
  let ?D2 = "\<lambda>x y. ?D x y \<or> (x \<in> set xs \<and> y \<in> set js)"
  have ih: "for_each xs (\<lambda>i. for_each js (body i)) ?s1 =
      Inr ((), ?s1\<lparr>cells := (cells ?s1)(c := recolour g ?D2 i0)\<rparr>)"
    using Cons.prems by (intro Cons.IH) auto
  have st: "?s1\<lparr>cells := (cells ?s1)(c := X)\<rparr> = s\<lparr>cells := (cells s)(c := X)\<rparr>" for X
    by simp
  have d: "?D2 = (\<lambda>x y. D x y \<or> (x \<in> set (i # xs) \<and> y \<in> set js))"
    by (auto simp add: fun_eq_iff)
  have "for_each (i # xs) (\<lambda>i. for_each js (body i)) s =
      for_each xs (\<lambda>i. for_each js (body i)) ?s1"
    by (simp add: bnd_apply step)
  then show ?case
    by (simp only: ih st d)
qed

lemma distinct_py_range: "distinct (py_range n)"
  by (simp add: py_range_def distinct_map inj_on_def)

lemma set_py_range: "x \<in> set (py_range n) \<longleftrightarrow> 0 \<le> x \<and> x < n"
proof
  assume "x \<in> set (py_range n)"
  then obtain k where "x = int k" and "k < nat n"
    by (auto simp add: py_range_def)
  then show "0 \<le> x \<and> x < n"
    by simp
next
  assume "0 \<le> x \<and> x < n"
  then have "x = int (nat x)" and "nat x < nat n"
    by simp_all
  then have "x \<in> int ` {0..<nat n}"
    by (metis atLeastLessThan_iff imageI le0)
  then show "x \<in> set (py_range n)"
    by (simp add: py_range_def)
qed

lemmas py_range_simps = distinct_py_range set_py_range

lemma pixel_loops:
  assumes body: "\<And>i j s. inside (cells s c) i j \<Longrightarrow>
      body i j s = Inr ((), s\<lparr>cells := (cells s)(c :=
                      putpixel_img (cells s c) (i, j) (g (px (cells s c) i j)))\<rparr>)"
  shows "for_each (py_range (int (width (cells s c))))
           (\<lambda>i. for_each (py_range (int (height (cells s c)))) (body i)) s =
         Inr ((), s\<lparr>cells := (cells s)(c := recolour g (inside (cells s c)) (cells s c))\<rparr>)"
proof -
  let ?i0 = "cells s c"
  have "for_each (py_range (int (width ?i0)))
           (\<lambda>i. for_each (py_range (int (height ?i0))) (body i)) s =
      Inr ((), s\<lparr>cells := (cells s)(c := recolour g
          (\<lambda>x y. False \<or> (x \<in> set (py_range (int (width ?i0)))
                           \<and> y \<in> set (py_range (int (height ?i0))))) ?i0)\<rparr>)"
    by (intro outer_loop body) (simp_all add: py_range_simps recolour_none)
  moreover have "(\<lambda>x y. False \<or> (x \<in> set (py_range (int (width ?i0)))
                           \<and> y \<in> set (py_range (int (height ?i0))))) = inside ?i0"
    by (auto simp add: fun_eq_iff py_range_simps inside_def)
  ultimately show ?thesis
    by (simp only:)
qed

text \<open>The histogram modes of \<^verbatim>\<open>convertBlackAndWhite\<close>: pixel access, the two pixel
  loops, and the whole run.\<close>

lemma PixelAccess_get_run:
  "PixelAccess_get im xy s =
     (if inside (cells s im) (fst xy) (snd xy)
      then Inr (px (cells s im) (fst xy) (snd xy), s) else Inl IndexError)"
  by (simp add: PixelAccess_get_def bnd_def deref_def ret_def raise_def)

lemma PixelAccess_set_run:
  "PixelAccess_set im xy v s =
     (if inside (cells s im) (fst xy) (snd xy)
      then Inr ((), s\<lparr>cells := (cells s)(im := putpixel_img (cells s im) xy v)\<rparr>)
      else Inl IndexError)"
  by (simp add: PixelAccess_set_def bnd_def deref_def assign_def raise_def)

lemma background_loop_run:
  assumes "w = int (width (cells s c))" and "h = int (height (cells s c))"
  shows "for_each (py_range w) (\<lambda>i. for_each (py_range h) (\<lambda>j.
           bnd (PixelAccess_get c (i, j)) (\<lambda>p.
           bnd (unbound (Some fc)) (\<lambda>fc.
           if cmpTup p fc then PixelAccess_set c (i, j) (255, 255, 255, 255)
           else PixelAccess_set c (i, j) (0, 0, 0, 255))))) s =
         Inr ((), s\<lparr>cells := (cells s)(c :=
                    recolour (classify ''background'' fc) (inside (cells s c)) (cells s c))\<rparr>)"
  unfolding assms
  by (rule pixel_loops)
    (simp add: bnd_apply PixelAccess_get_run PixelAccess_set_run unbound_run classify_def)

lemma foreground_loop_run:
  assumes "w = int (width (cells s c))" and "h = int (height (cells s c))"
  shows "for_each (py_range w) (\<lambda>i. for_each (py_range h) (\<lambda>j.
           bnd (PixelAccess_get c (i, j)) (\<lambda>p.
           bnd (unbound (Some fc)) (\<lambda>fc.
           if \<not> cmpTup p fc then PixelAccess_set c (i, j) (255, 255, 255, 255)
           else PixelAccess_set c (i, j) (0, 0, 0, 255))))) s =
         Inr ((), s\<lparr>cells := (cells s)(c :=
                    recolour (classify ''foreground'' fc) (inside (cells s c)) (cells s c))\<rparr>)"
  unfolding assms
  by (rule pixel_loops)
    (simp add: bnd_apply PixelAccess_get_run PixelAccess_set_run unbound_run classify_def)

lemma background_mode_run:
  assumes img: "img < lim s"
    and cs: "getcolors_img (convert_RGBA_img (cells s img)) = Some cs"
    and k: "0 < length cs"
    and wh: "0 < width (cells s img)" "0 < height (cells s img)"
  shows "\<exists>s'. convertBlackAndWhite P img ''background'' s = Inr (lim s + 3, s')
      \<and> (\<forall>k<lim s. cells s' k = cells s k)
      \<and> cells s' (lim s + 3) =
          convert_RGBA_img (recolour (classify ''background'' (snd (rev (sort_key fst (rev cs)) ! 0)))
            (inside (convert_RGBA_img (cells s img))) (convert_RGBA_img (cells s img)))"
  using assms
  by (simp add: convertBlackAndWhite_def Let_def run_simps dims_simps
      Image_thumbnail_1x1_run Image_getpixel_L_run Image_getcolors_run sorted_reverse_run
      getitem_run inside_def one_pixel_img_def background_loop_run size_of_def)

lemma foreground_mode_run:
  assumes img: "img < lim s"
    and cs: "getcolors_img (convert_RGBA_img (cells s img)) = Some cs"
    and k: "1 < length cs"
    and wh: "0 < width (cells s img)" "0 < height (cells s img)"
  shows "\<exists>s'. convertBlackAndWhite P img ''foreground'' s = Inr (lim s + 3, s')
      \<and> (\<forall>k<lim s. cells s' k = cells s k)
      \<and> cells s' (lim s + 3) =
          convert_RGBA_img (recolour (classify ''foreground'' (snd (rev (sort_key fst (rev cs)) ! 1)))
            (inside (convert_RGBA_img (cells s img))) (convert_RGBA_img (cells s img)))"
  using assms
  by (simp add: convertBlackAndWhite_def Let_def run_simps dims_simps
      Image_thumbnail_1x1_run Image_getpixel_L_run Image_getcolors_run sorted_reverse_run
      getitem_run inside_def one_pixel_img_def foreground_loop_run size_of_def)

lemma foreground_mode_short:
  assumes cs: "getcolors_img (convert_RGBA_img (cells s img)) = Some cs"
    and k: "length cs < 2"
  shows "convertBlackAndWhite P img ''foreground'' s = Inl IndexError"
  using assms
  by (simp add: convertBlackAndWhite_def Let_def run_simps dims_simps
      Image_thumbnail_1x1_run Image_getpixel_L_run Image_getcolors_run sorted_reverse_run
      getitem_run inside_def one_pixel_img_def size_of_def)

lemma background_mode_empty:
  assumes cs: "getcolors_img (convert_RGBA_img (cells s img)) = Some []"
  shows "convertBlackAndWhite P img ''background'' s = Inl IndexError"
  using assms
  by (simp add: convertBlackAndWhite_def Let_def run_simps dims_simps
      Image_thumbnail_1x1_run Image_getpixel_L_run Image_getcolors_run sorted_reverse_run
      getitem_run inside_def one_pixel_img_def size_of_def)


lemma inside_raster: "inside i x y \<Longrightarrow> px i x y \<in> set (raster i)"
proof -
  assume a: "inside i x y"
  then have "nat x < width i" "nat y < height i" "int (nat x) = x" "int (nat y) = y"
    by (auto simp add: inside_def)
  then have "px i (int (nat x)) (int (nat y)) \<in> set (raster i)"
    unfolding raster_def by (simp only: set_concat set_map) force
  then show ?thesis
    using a by (simp add: inside_def)
qed

lemma raster_not_Nil: "raster i \<noteq> [] \<Longrightarrow> 0 < width i \<and> 0 < height i"
  by (auto simp add: raster_def)

lemma cmpTup_refl: "cmpTup c c"
  by (cases c) (simp add: cmpTup_def bands_def)

lemma getcolors_img_few:
  assumes "distinct_colours i \<le> 256"
  shows "\<exists>cs. getcolors_img (convert_RGBA_img i) = Some cs
           \<and> length cs = distinct_colours i
           \<and> map snd cs = remdups (raster (convert_RGBA_img i))"
  using assms by (simp add: getcolors_img_def distinct_colours_def Let_def comp_def)

lemma one_colour:
  assumes "distinct_colours i = 1"
  shows "\<exists>n c. getcolors_img (convert_RGBA_img i) = Some [(n, c)]
           \<and> (\<forall>x y. inside (convert_RGBA_img i) x y \<longrightarrow> px (convert_RGBA_img i) x y = c)
           \<and> 0 < width i \<and> 0 < height i"
proof -
  let ?j = "convert_RGBA_img i"
  obtain cs where cs: "getcolors_img ?j = Some cs" "length cs = 1"
      "map snd cs = remdups (raster ?j)"
    using getcolors_img_few [of i] assms by auto
  then obtain n c where nc: "cs = [(n, c)]"
    by (cases cs) auto
  then have "set (raster ?j) = {c}"
    using cs(3) by (metis list.simps(8,9) set_remdups list.set(1,2) snd_conv)
  then have px: "\<forall>x y. inside ?j x y \<longrightarrow> px ?j x y = c"
    using inside_raster [of ?j] by blast
  have "raster ?j \<noteq> []"
    using cs(3) nc by auto
  then have "0 < width ?j \<and> 0 < height ?j"
    by (rule raster_not_Nil)
  then show ?thesis
    using cs(1) nc px by (simp add: dims_simps)
qed

text \<open>\<^verbatim>\<open>roundCorners\<close> with a radius that is not negative: it returns the canvas
  \<^verbatim>\<open>background\<close>, the third object it allocates, and writes to no object that existed
  before the call.\<close>

lemma roundCorners_run:
  assumes "img < lim s" and "0 \<le> radius"
    and "Image_new_accepts P (radius * 2, radius * 2)"
    and "Image_new_accepts P (size_of (cells s img))"
  shows "\<exists>s'. roundCorners P img radius s = Inr (lim s + 2, s')
      \<and> lim s + 2 \<noteq> img
      \<and> (\<forall>k<lim s. cells s' k = cells s k)
      \<and> mode (cells s' (lim s + 2)) = Mode_RGBA
      \<and> size_of (cells s' (lim s + 2)) = size_of (cells s img)"
  using assms
  by (simp add: roundCorners_def run_simps dims_simps size_of_def mode_simps)

text \<open>The facts that run the filter modes of \<^verbatim>\<open>convertBlackAndWhite\<close>.\<close>

lemmas filter_run = convertBlackAndWhite_def Let_def run_simps dims_simps mode_simps px_simps
  Image_thumbnail_1x1_run Image_getpixel_L_run Image_point_1_run unbound_run
  inside_def one_pixel_img_def px_point_1_img px_convert_L_img CLIP8_simps
  luminance_def average_luminance_def size_of_def

section \<open>Removing padding\<close>



section \<open>The simple drop shadow\<close>

text \<open>
  Claim C6. For every image and every offset \<open>[ox, oy]\<close>,
  \<^verbatim>\<open>addDropShadowSimple(image, offset)\<close> is the call
  \<^verbatim>\<open>addDropShadowComplex(image, 11, max(|ox|, |oy|), offset, "#ffffff00", "#00000055")\<close>:
  11 iterations, border \<open>max \<bar>ox\<bar> \<bar>oy\<bar>\<close>, transparent white as the background colour and
  semi-transparent black as the shadow colour. The two runs agree on every store, in
  what they return, in what they raise and in the store they leave.
\<close>

theorem addDropShadowSimple_is_complex:
  "addDropShadowSimple P img [ox, oy] =
     addDropShadowComplex P img 11 (max \<bar>ox\<bar> \<bar>oy\<bar>) [ox, oy] (255, 255, 255, 0) (0, 0, 0, 85)"
  by (simp add: addDropShadowSimple_def bnd_ret max.commute)

section \<open>Rounding corners with radius 0\<close>



section \<open>Doubling and halving\<close>




section \<open>The drop shadow\<close>




text \<open>
  Claim C3, as amended. For every input image whose width and height are not zero, every
  iteration count, every offset and every valid border, that is a border \<open>b\<close> that is not
  negative and in range, \<^verbatim>\<open>Image.new\<close> accepting the canvas size
  \<open>(w + \<bar>ox\<bar> + 2 * b, h + \<bar>oy\<bar> + 2 * b)\<close> (no dimension above \<^verbatim>\<open>INT_MAX\<close>, and the memory
  there) and the size of the image, \<^verbatim>\<open>addDropShadowComplex\<close> returns an image of exactly
  the width and height of the input. The claim as stated, for every input image, fails
  on the image of size 0 by 0 and a border of 1: the canvas is 2 by 2, and resizing it
  to 0 by 0 raises \<^verbatim>\<open>ValueError\<close>.
\<close>

theorem addDropShadowComplex_same_size:
  fixes border :: int
  assumes "img < lim s" and "0 \<le> border"
    and "Image_new_accepts P (int (width (cells s img)) + \<bar>ox\<bar> + 2 * border,
                              int (height (cells s img)) + \<bar>oy\<bar> + 2 * border)"
    and "Image_new_accepts P (size_of (cells s img))"
    and "0 < width (cells s img)" and "0 < height (cells s img)"
  shows "\<exists>r s'. addDropShadowComplex P img iterations border [ox, oy] bg sh s = Inr (r, s')
      \<and> size_of (cells s' r) = size_of (cells s img)"
proof -
  from addDropShadowComplex_run [OF assms(1,3,4)]
  obtain r s' where "addDropShadowComplex P img iterations border [ox, oy] bg sh s =
        resizeImageAbs P r (int (width (cells s img))) (int (height (cells s img))) s'"
    by blast
  then show ?thesis
    using assms(5,6)
    by (simp add: resizeImageAbs_def Image_resize_run size_of_def dims_simps)
qed

theorem addDropShadowComplex_same_size_witness:
  "\<exists>r s'. addDropShadowComplex example_pillow 0 2 1 [2, - 1] (255, 255, 255, 0) (0, 0, 0, 85)
             (store_with (gradient Mode_RGBA 3 2)) = Inr (r, s')
      \<and> size_of (cells s' r) = (3, 2)"
  using addDropShadowComplex_same_size [where img = 0
      and s = "store_with (gradient Mode_RGBA 3 2)" and P = example_pillow and iterations = 2
      and border = 1 and ox = 2 and oy = "- 1" and bg = "(255, 255, 255, 0)"
      and sh = "(0, 0, 0, 85)"]
  by (simp add: store_with_def gradient_def size_of_def Image_new_accepts_example)

theorem addDropShadowComplex_empty_image_counterexample:
  "addDropShadowComplex example_pillow 0 0 1 [0, 0] (255, 255, 255, 0) (0, 0, 0, 85)
     (store_with (gradient Mode_RGBA 0 0)) = Inl ValueError"
  by (simp add: addDropShadowComplex_def Let_def run_simps getitem_run store_with_def
      gradient_def size_of_def dims_simps resizeImageAbs_def Image_new_accepts_example)

section \<open>Black and white by threshold\<close>

text \<open>
  Claim C5, as amended. For every input image whose width and height are not zero,
  \<^verbatim>\<open>convertBlackAndWhite\<close> in mode \<^verbatim>\<open>filter-darker\<close> and in mode \<^verbatim>\<open>filter-lighter\<close> returns
  an RGBA image of the input's size in which every pixel is exactly \<open>(0, 0, 0, 255)\<close> or
  exactly \<open>(255, 255, 255, 255)\<close>. One average is computed by downsampling the grey
  image to 1 by 1. In \<^verbatim>\<open>filter-darker\<close> a pixel whose grey value is strictly below the
  average becomes black and every other pixel white; in \<^verbatim>\<open>filter-lighter\<close> the comparison
  is inverted: a pixel strictly above the average becomes black and every other pixel
  white. An image of width 0 and height above 1 on which \<^verbatim>\<open>thumbnail((1, 1))\<close> returns
  gives an RGBA image of the input's size as well, which has no pixels. The call raises
  instead of returning on the images of size 0 by 0, 0 by 1 and 1 by 0, where
  \<^verbatim>\<open>getpixel((0, 0))\<close> raises \<^verbatim>\<open>IndexError\<close>, and on an image of height 0 and width above
  1, where \<^verbatim>\<open>thumbnail((1, 1))\<close> raises \<^verbatim>\<open>ZeroDivisionError\<close>. The claim as stated, for
  every input image, fails on the image of size 0 by 0.
\<close>

theorem convertBlackAndWhite_filter:
  assumes "img < lim s"
  shows "(0 < width (cells s img) \<and> 0 < height (cells s img) \<longrightarrow>
          (\<exists>r s'. convertBlackAndWhite P img ''filter-darker'' s = Inr (r, s')
            \<and> mode (cells s' r) = Mode_RGBA
            \<and> size_of (cells s' r) = size_of (cells s img)
            \<and> (\<forall>x y. px (cells s' r) x y = (0, 0, 0, 255)
                     \<or> px (cells s' r) x y = (255, 255, 255, 255))
            \<and> (\<forall>x y. px (cells s' r) x y =
                 (if luminance (cells s img) x y < average_luminance P (cells s img)
                  then (0, 0, 0, 255) else (255, 255, 255, 255))))
          \<and> (\<exists>r s'. convertBlackAndWhite P img ''filter-lighter'' s = Inr (r, s')
            \<and> mode (cells s' r) = Mode_RGBA
            \<and> size_of (cells s' r) = size_of (cells s img)
            \<and> (\<forall>x y. px (cells s' r) x y = (0, 0, 0, 255)
                     \<or> px (cells s' r) x y = (255, 255, 255, 255))
            \<and> (\<forall>x y. px (cells s' r) x y =
                 (if luminance (cells s img) x y > average_luminance P (cells s img)
                  then (0, 0, 0, 255) else (255, 255, 255, 255)))))
       \<and> (width (cells s img) = 0 \<and> 1 < height (cells s img)
            \<and> (\<exists>v. thumbnail_empty P (convert_L_img (cells s img)) = Inr v) \<longrightarrow>
          (\<exists>r s'. convertBlackAndWhite P img ''filter-darker'' s = Inr (r, s')
            \<and> mode (cells s' r) = Mode_RGBA
            \<and> size_of (cells s' r) = size_of (cells s img)
            \<and> (\<forall>x y. px (cells s' r) x y = (0, 0, 0, 255)
                     \<or> px (cells s' r) x y = (255, 255, 255, 255)))
          \<and> (\<exists>r s'. convertBlackAndWhite P img ''filter-lighter'' s = Inr (r, s')
            \<and> mode (cells s' r) = Mode_RGBA
            \<and> size_of (cells s' r) = size_of (cells s img)
            \<and> (\<forall>x y. px (cells s' r) x y = (0, 0, 0, 255)
                     \<or> px (cells s' r) x y = (255, 255, 255, 255))))
       \<and> (width (cells s img) \<le> 1 \<and> height (cells s img) \<le> 1
            \<and> (width (cells s img) = 0 \<or> height (cells s img) = 0) \<longrightarrow>
          convertBlackAndWhite P img ''filter-darker'' s = Inl IndexError
          \<and> convertBlackAndWhite P img ''filter-lighter'' s = Inl IndexError)
       \<and> (1 < width (cells s img) \<and> height (cells s img) = 0 \<longrightarrow>
          convertBlackAndWhite P img ''filter-darker'' s = Inl ZeroDivisionError
          \<and> convertBlackAndWhite P img ''filter-lighter'' s = Inl ZeroDivisionError)"
proof (intro conjI impI)
  assume "0 < width (cells s img) \<and> 0 < height (cells s img)"
  with assms show "\<exists>r s'. convertBlackAndWhite P img ''filter-darker'' s = Inr (r, s')
          \<and> mode (cells s' r) = Mode_RGBA
          \<and> size_of (cells s' r) = size_of (cells s img)
          \<and> (\<forall>x y. px (cells s' r) x y = (0, 0, 0, 255)
                   \<or> px (cells s' r) x y = (255, 255, 255, 255))
          \<and> (\<forall>x y. px (cells s' r) x y =
               (if luminance (cells s img) x y < average_luminance P (cells s img)
                then (0, 0, 0, 255) else (255, 255, 255, 255)))"
    and "\<exists>r s'. convertBlackAndWhite P img ''filter-lighter'' s = Inr (r, s')
          \<and> mode (cells s' r) = Mode_RGBA
          \<and> size_of (cells s' r) = size_of (cells s img)
          \<and> (\<forall>x y. px (cells s' r) x y = (0, 0, 0, 255)
                   \<or> px (cells s' r) x y = (255, 255, 255, 255))
          \<and> (\<forall>x y. px (cells s' r) x y =
               (if luminance (cells s img) x y > average_luminance P (cells s img)
                then (0, 0, 0, 255) else (255, 255, 255, 255)))"
    by (simp_all add: filter_run)
next
  assume "width (cells s img) = 0 \<and> 1 < height (cells s img)
          \<and> (\<exists>v. thumbnail_empty P (convert_L_img (cells s img)) = Inr v)"
  then obtain v where "width (cells s img) = 0" "1 < height (cells s img)"
      "thumbnail_empty P (convert_L_img (cells s img)) = Inr v"
    by blast
  with assms show "\<exists>r s'. convertBlackAndWhite P img ''filter-darker'' s = Inr (r, s')
          \<and> mode (cells s' r) = Mode_RGBA
          \<and> size_of (cells s' r) = size_of (cells s img)
          \<and> (\<forall>x y. px (cells s' r) x y = (0, 0, 0, 255)
                   \<or> px (cells s' r) x y = (255, 255, 255, 255))"
    and "\<exists>r s'. convertBlackAndWhite P img ''filter-lighter'' s = Inr (r, s')
          \<and> mode (cells s' r) = Mode_RGBA
          \<and> size_of (cells s' r) = size_of (cells s img)
          \<and> (\<forall>x y. px (cells s' r) x y = (0, 0, 0, 255)
                   \<or> px (cells s' r) x y = (255, 255, 255, 255))"
    by (simp_all add: filter_run)
next
  assume "width (cells s img) \<le> 1 \<and> height (cells s img) \<le> 1
          \<and> (width (cells s img) = 0 \<or> height (cells s img) = 0)"
  then show "convertBlackAndWhite P img ''filter-darker'' s = Inl IndexError"
    and "convertBlackAndWhite P img ''filter-lighter'' s = Inl IndexError"
    by (auto simp add: filter_run)
next
  assume "1 < width (cells s img) \<and> height (cells s img) = 0"
  then show "convertBlackAndWhite P img ''filter-darker'' s = Inl ZeroDivisionError"
    and "convertBlackAndWhite P img ''filter-lighter'' s = Inl ZeroDivisionError"
    by (simp_all add: filter_run)
qed


theorem convertBlackAndWhite_filter_witness:
  "(\<exists>r s'. convertBlackAndWhite example_pillow 0 ''filter-darker''
              (store_with (gradient Mode_L 256 1)) = Inr (r, s')
        \<and> size_of (cells s' r) = (256, 1)
        \<and> px (cells s' r) 255 0 = (255, 255, 255, 255))
   \<and> (\<exists>r s'. convertBlackAndWhite example_pillow 0 ''filter-lighter''
              (store_with (gradient Mode_L 256 1)) = Inr (r, s')
        \<and> size_of (cells s' r) = (256, 1)
        \<and> px (cells s' r) 255 0 = (0, 0, 0, 255))
   \<and> (\<exists>r s'. convertBlackAndWhite (example_pillow\<lparr>thumbnail_empty := \<lambda>i. Inr (0, 0, 0, 0)\<rparr>) 0
              ''filter-darker'' (store_with (gradient Mode_L 0 2)) = Inr (r, s')
        \<and> size_of (cells s' r) = (0, 2))
   \<and> convertBlackAndWhite example_pillow 0 ''filter-darker'' (store_with (gradient Mode_L 0 1)) =
       Inl IndexError
   \<and> convertBlackAndWhite example_pillow 0 ''filter-lighter'' (store_with (gradient Mode_L 2 0)) =
       Inl ZeroDivisionError"
proof -
  let ?g = "gradient Mode_L 256 1"
  let ?s = "store_with ?g"
  let ?P = "example_pillow\<lparr>thumbnail_empty := \<lambda>i. Inr (0, 0, 0, 0)\<rparr>"
  let ?e = "gradient Mode_L 0 2"
  have l: "\<And>i. (0::nat) < lim (store_with i)"
    by (simp add: store_with_def)
  have g: "cells ?s 0 = ?g" "size_of ?g = (256, 1)" "0 < width ?g \<and> 0 < height ?g"
    by (simp_all add: store_with_def gradient_def size_of_def)
  have lum: "luminance ?g 255 0 = 255" "average_luminance example_pillow ?g = 0"
    by (simp_all add: luminance_def average_luminance_def gradient_def example_pillow_def
        convert_L_img_def)
  obtain r s' r2 s2 where
    d: "convertBlackAndWhite example_pillow 0 ''filter-darker'' ?s = Inr (r, s')"
      "size_of (cells s' r) = size_of (cells ?s 0)"
      "\<forall>x y. px (cells s' r) x y =
         (if luminance (cells ?s 0) x y < average_luminance example_pillow (cells ?s 0)
          then (0, 0, 0, 255) else (255, 255, 255, 255))"
    and li: "convertBlackAndWhite example_pillow 0 ''filter-lighter'' ?s = Inr (r2, s2)"
      "size_of (cells s2 r2) = size_of (cells ?s 0)"
      "\<forall>x y. px (cells s2 r2) x y =
         (if luminance (cells ?s 0) x y > average_luminance example_pillow (cells ?s 0)
          then (0, 0, 0, 255) else (255, 255, 255, 255))"
    using convertBlackAndWhite_filter [OF l, of ?g example_pillow] g(3)
    unfolding g(1) by blast
  have "px (cells s' r) 255 0 =
      (if luminance ?g 255 0 < average_luminance example_pillow ?g
       then (0, 0, 0, 255) else (255, 255, 255, 255))"
    using d(3) by (simp only: g)
  then have p1: "px (cells s' r) 255 0 = (255, 255, 255, 255)"
    by (simp only: lum) simp
  have "px (cells s2 r2) 255 0 =
      (if luminance ?g 255 0 > average_luminance example_pillow ?g
       then (0, 0, 0, 255) else (255, 255, 255, 255))"
    using li(3) by (simp only: g)
  then have p2: "px (cells s2 r2) 255 0 = (0, 0, 0, 255)"
    by (simp only: lum) simp
  have sz: "size_of (cells s' r) = (256, 1)" "size_of (cells s2 r2) = (256, 1)"
    using d(2) li(2) by (simp_all only: g)
  have e: "cells (store_with ?e) 0 = ?e" "size_of ?e = (0, 2)"
      "width ?e = 0 \<and> 1 < height ?e \<and> (\<exists>v. thumbnail_empty ?P (convert_L_img ?e) = Inr v)"
    by (simp_all add: store_with_def gradient_def size_of_def)
  obtain r3 s3 where
    b: "convertBlackAndWhite ?P 0 ''filter-darker'' (store_with ?e) = Inr (r3, s3)"
      "size_of (cells s3 r3) = size_of (cells (store_with ?e) 0)"
    using convertBlackAndWhite_filter [OF l, of ?e ?P] e(3)
    unfolding e(1) by blast
  have sz3: "size_of (cells s3 r3) = (0, 2)"
    using b(2) by (simp only: e)
  have c: "convertBlackAndWhite example_pillow 0 ''filter-darker''
      (store_with (gradient Mode_L 0 1)) = Inl IndexError"
    using convertBlackAndWhite_filter [OF l, of "gradient Mode_L 0 1" example_pillow]
    by (simp add: store_with_def gradient_def)
  have z: "convertBlackAndWhite example_pillow 0 ''filter-lighter''
      (store_with (gradient Mode_L 2 0)) = Inl ZeroDivisionError"
    using convertBlackAndWhite_filter [OF l, of "gradient Mode_L 2 0" example_pillow]
    by (simp add: store_with_def gradient_def)
  from d(1) li(1) p1 p2 sz b(1) sz3 c z show ?thesis
    by blast
qed

theorem convertBlackAndWhite_filter_empty_counterexample:
  "convertBlackAndWhite example_pillow 0 ''filter-darker'' (store_with (gradient Mode_RGBA 0 0)) =
     Inl IndexError"
  by (simp add: convertBlackAndWhite_def Let_def run_simps dims_simps
      Image_thumbnail_1x1_run Image_getpixel_L_run inside_def store_with_def gradient_def)

section \<open>More than 256 colours\<close>

text \<open>
  Claim C9. For every image with more than 256 distinct colours,
  \<^verbatim>\<open>convertBlackAndWhite\<close> in mode \<^verbatim>\<open>background\<close> and in mode \<^verbatim>\<open>foreground\<close> raises
  \<^verbatim>\<open>TypeError\<close> before it produces any output: \<^verbatim>\<open>getcolors()\<close> with its default cap of
  256 colours returns \<^verbatim>\<open>None\<close>, and \<^verbatim>\<open>sorted(None, ...)\<close> raises. So the comparison within
  10 per channel is only ever applied to images with at most 256 distinct colours.
\<close>

theorem convertBlackAndWhite_too_many_colours:
  assumes "256 < distinct_colours (cells s img)"
  shows "convertBlackAndWhite P img ''background'' s = Inl TypeError
       \<and> convertBlackAndWhite P img ''foreground'' s = Inl TypeError"
  using assms
  by (simp add: convertBlackAndWhite_def run_simps Image_getcolors_run sorted_reverse_run
      getcolors_img_None)

theorem convertBlackAndWhite_too_many_colours_witness:
  "256 < distinct_colours (ramp 257)
   \<and> convertBlackAndWhite example_pillow 0 ''background'' (store_with (ramp 257)) = Inl TypeError
   \<and> convertBlackAndWhite example_pillow 0 ''foreground'' (store_with (ramp 257)) = Inl TypeError"
proof -
  have c: "256 < distinct_colours (cells (store_with (ramp 257)) 0)"
    by (simp add: store_with_def ramp_colours)
  show ?thesis
    using convertBlackAndWhite_too_many_colours [OF c, of example_pillow]
    by (simp add: ramp_colours)
qed

section \<open>Fewer than two colours\<close>

text \<open>
  Claim C4, as amended. For every image with fewer than 2 distinct colours,
  \<^verbatim>\<open>convertBlackAndWhite\<close> in mode \<^verbatim>\<open>foreground\<close> raises \<^verbatim>\<open>IndexError\<close>: it indexes entry 1
  of the sorted histogram, which has at most one entry. Mode \<^verbatim>\<open>background\<close> indexes
  entry 0, so it raises \<^verbatim>\<open>IndexError\<close> only for an image with no colour at all (an image
  without pixels); for an image with exactly one colour it returns an RGBA image of the
  same size in which every pixel is white \<open>(255, 255, 255, 255)\<close>. The claim as stated,
  that both modes raise whenever there are fewer than 2 colours, fails in mode
  \<^verbatim>\<open>background\<close> on a 1 by 1 image, for which an image is returned.
\<close>

theorem convertBlackAndWhite_fewer_than_2_colours:
  assumes "distinct_colours (cells s img) < 2"
  shows "convertBlackAndWhite P img ''foreground'' s = Inl IndexError
       \<and> (distinct_colours (cells s img) = 0 \<longrightarrow>
            convertBlackAndWhite P img ''background'' s = Inl IndexError)
       \<and> (distinct_colours (cells s img) = 1 \<and> img < lim s \<longrightarrow>
            (\<exists>r s'. convertBlackAndWhite P img ''background'' s = Inr (r, s')
               \<and> mode (cells s' r) = Mode_RGBA
               \<and> size_of (cells s' r) = size_of (cells s img)
               \<and> (\<forall>x y. inside (cells s' r) x y \<longrightarrow>
                           px (cells s' r) x y = (255, 255, 255, 255))))"
proof (intro conjI impI)
  obtain cs where cs: "getcolors_img (convert_RGBA_img (cells s img)) = Some cs"
      "length cs = distinct_colours (cells s img)"
    using getcolors_img_few [of "cells s img"] assms by auto
  show "convertBlackAndWhite P img ''foreground'' s = Inl IndexError"
    using foreground_mode_short [OF cs(1)] cs(2) assms by simp
  show "convertBlackAndWhite P img ''background'' s = Inl IndexError"
    if "distinct_colours (cells s img) = 0"
    using background_mode_empty [of s img P] cs that by simp
  show "\<exists>r s'. convertBlackAndWhite P img ''background'' s = Inr (r, s')
               \<and> mode (cells s' r) = Mode_RGBA
               \<and> size_of (cells s' r) = size_of (cells s img)
               \<and> (\<forall>x y. inside (cells s' r) x y \<longrightarrow>
                           px (cells s' r) x y = (255, 255, 255, 255))"
    if h: "distinct_colours (cells s img) = 1 \<and> img < lim s"
  proof -
    let ?j = "convert_RGBA_img (cells s img)"
    obtain n c where one: "getcolors_img ?j = Some [(n, c)]"
        "\<forall>x y. inside ?j x y \<longrightarrow> px ?j x y = c"
        "0 < width (cells s img)" "0 < height (cells s img)"
      using one_colour [of "cells s img"] h by blast
    obtain s' where run: "convertBlackAndWhite P img ''background'' s = Inr (lim s + 3, s')"
        "cells s' (lim s + 3) =
           convert_RGBA_img (recolour (classify ''background'' c) (inside ?j) ?j)"
      using background_mode_run [OF _ one(1) _ one(3,4), of P] h by auto
    have "mode (cells s' (lim s + 3)) = Mode_RGBA"
      "size_of (cells s' (lim s + 3)) = size_of (cells s img)"
      by (simp_all add: run(2) mode_simps size_of_def dims_simps recolour_simps)
    moreover have "\<forall>x y. inside (cells s' (lim s + 3)) x y \<longrightarrow>
        px (cells s' (lim s + 3)) x y = (255, 255, 255, 255)"
      using one(2)
      by (simp add: run(2) px_simps mode_simps recolour_simps inside_def dims_simps
          classify_def cmpTup_refl)
    ultimately show ?thesis
      using run(1) by blast
  qed
qed

theorem convertBlackAndWhite_fewer_than_2_colours_witness:
  "distinct_colours (gradient Mode_RGBA 1 1) < 2
   \<and> convertBlackAndWhite example_pillow 0 ''foreground'' (store_with (gradient Mode_RGBA 1 1)) =
       Inl IndexError
   \<and> distinct_colours (gradient Mode_RGBA 0 0) < 2
   \<and> convertBlackAndWhite example_pillow 0 ''background'' (store_with (gradient Mode_RGBA 0 0)) =
       Inl IndexError
   \<and> (\<exists>r s'. convertBlackAndWhite example_pillow 0 ''background''
                (store_with (gradient Mode_RGBA 1 1)) = Inr (r, s')
          \<and> size_of (cells s' r) = (1, 1)
          \<and> px (cells s' r) 0 0 = (255, 255, 255, 255))"
proof -
  let ?g = "gradient Mode_RGBA 1 1"
  let ?e = "gradient Mode_RGBA 0 0"
  have g: "distinct_colours ?g = 1" "distinct_colours ?e = 0"
    by (simp_all add: distinct_colours_def raster_def convert_RGBA_img_def gradient_def)
  have c: "cells (store_with ?g) 0 = ?g" "cells (store_with ?e) 0 = ?e"
      "(0::nat) < lim (store_with ?g)" "size_of ?g = (1, 1)"
    by (simp_all add: store_with_def size_of_def gradient_def)
  have h1: "distinct_colours (cells (store_with ?g) 0) < 2"
    and h0: "distinct_colours (cells (store_with ?e) 0) < 2"
    by (simp_all only: c g)
  note t1 = convertBlackAndWhite_fewer_than_2_colours [OF h1, of example_pillow]
  note t0 = convertBlackAndWhite_fewer_than_2_colours [OF h0, of example_pillow]
  have fg: "convertBlackAndWhite example_pillow 0 ''foreground'' (store_with ?g) = Inl IndexError"
    using t1 by blast
  have bg0: "convertBlackAndWhite example_pillow 0 ''background'' (store_with ?e) = Inl IndexError"
    using t0 by (simp add: c g)
  obtain r s' where bg: "convertBlackAndWhite example_pillow 0 ''background'' (store_with ?g) =
        Inr (r, s')"
      "size_of (cells s' r) = size_of (cells (store_with ?g) 0)"
      "\<forall>x y. inside (cells s' r) x y \<longrightarrow> px (cells s' r) x y = (255, 255, 255, 255)"
    using t1 c(3) g(1) c(1) by auto
  have sz: "size_of (cells s' r) = (1, 1)"
    using bg(2) by (simp only: c)
  then have "inside (cells s' r) 0 0"
    by (simp add: inside_def size_of_def)
  then have "px (cells s' r) 0 0 = (255, 255, 255, 255)"
    using bg(3) by blast
  with fg bg0 bg(1) sz g show ?thesis
    by auto
qed

theorem convertBlackAndWhite_one_colour_background_counterexample:
  "distinct_colours (gradient Mode_RGBA 1 1) < 2
   \<and> value_of (convertBlackAndWhite example_pillow 0 ''background''
        (store_with (gradient Mode_RGBA 1 1))) = Inr 4"
proof -
  let ?g = "gradient Mode_RGBA 1 1"
  let ?s = "store_with ?g"
  have g: "distinct_colours ?g = 1"
    by (simp add: distinct_colours_def raster_def convert_RGBA_img_def gradient_def)
  have c: "cells ?s 0 = ?g" "lim ?s = 1" "(0::nat) < lim ?s"
    by (simp_all add: store_with_def)
  obtain n k where one: "getcolors_img (convert_RGBA_img (cells ?s 0)) = Some [(n, k)]"
      "0 < width (cells ?s 0)" "0 < height (cells ?s 0)"
    using one_colour [OF g] unfolding c by blast
  obtain s' where "convertBlackAndWhite example_pillow 0 ''background'' ?s =
      Inr (lim ?s + 3, s')"
    using background_mode_run [OF c(3) one(1) _ one(2,3), of example_pillow] by auto
  then have "convertBlackAndWhite example_pillow 0 ''background'' ?s = Inr (4, s')"
    by (simp add: store_with_def)
  then have "value_of (convertBlackAndWhite example_pillow 0 ''background'' ?s) = Inr 4"
    by (simp add: value_of_def)
  moreover have "distinct_colours ?g < 2"
    by (simp only: g)
  ultimately show ?thesis
    by blast
qed

section \<open>What \<^verbatim>\<open>roundCorners\<close> does to its argument\<close>

text \<open>
  Claim C1. The claim is that \<^verbatim>\<open>roundCorners(image, radius)\<close> mutates the image object it
  is passed and returns the same reference, and the docstring of \<^verbatim>\<open>roundCorners\<close> says
  that it modifies the image parameter. The code does neither. Run on the 3 by 2 RGB
  gradient held at reference 0, with radius 1, it returns reference 3, the canvas
  \<^verbatim>\<open>background\<close> that it allocated itself, and the object at reference 0 is afterwards
  the gradient that it was before the call.
\<close>

theorem roundCorners_returns_new_image:
  "value_of (roundCorners example_pillow 0 1 (store_with (gradient Mode_RGB 3 2))) = Inr 3
   \<and> object_after (roundCorners example_pillow 0 1 (store_with (gradient Mode_RGB 3 2))) 0 =
       Some (gradient Mode_RGB 3 2)"
proof -
  let ?s = "store_with (gradient Mode_RGB 3 2)"
  have s: "(0::nat) < lim ?s" "cells ?s 0 = gradient Mode_RGB 3 2"
    by (simp_all add: store_with_def)
  have b: "(0::int) \<le> 1" "Image_new_accepts example_pillow (1 * 2, 1 * 2)"
      "Image_new_accepts example_pillow (size_of (cells ?s 0))"
    by (simp_all add: Image_new_accepts_example store_with_def gradient_def size_of_def)
  obtain s' where r: "roundCorners example_pillow 0 1 ?s = Inr (lim ?s + 2, s')"
    and f: "\<forall>k<lim ?s. cells s' k = cells ?s k"
    using roundCorners_run [OF s(1) b] by blast
  have n: "lim ?s + 2 = 3"
    by (simp add: store_with_def)
  have r': "roundCorners example_pillow 0 1 ?s = Inr (3, s')"
    using r by (simp only: n)
  have "cells s' 0 = gradient Mode_RGB 3 2"
    using f s by metis
  then show ?thesis
    by (simp add: r' value_of_def object_after_def)
qed

end
